theory Spec2Isabelle
  imports Complex_Main
begin

section \<open>JavaScript numbers\<close>

text \<open>
  A JavaScript number is a binary64 value: NaN, an infinity, or a finite value. The
  arithmetic of IEEE 754 computes the exact result and rounds it to the nearest binary64
  value, a tie going to the one with an even significand; a result at or beyond
  \<open>2^1024\<close> after rounding is an infinity.

  \<open>fl x\<close> is that rounding of the real \<open>x\<close>, with the exponent unbounded above:
  \<open>expo a\<close> is the exponent \<open>e\<close> with \<open>2^e \<le> a < 2^(e+1)\<close>, the spacing of the
  binary64 values around \<open>x\<close> is \<open>2^(e - 52)\<close>, and \<open>2^(-1074)\<close> below the normal range.
\<close>

definition pow2 :: "int \<Rightarrow> real" where
  "pow2 k = (if 0 \<le> k then 2 ^ nat k else 1 / 2 ^ nat (- k))"

function expo :: "real \<Rightarrow> int" where
  "expo a = (if 2 \<le> a then expo (a / 2) + 1 else if 0 < a \<and> a < 1 then expo (a * 2) - 1 else 0)"
  by pat_completeness auto
termination
proof (relation "measure (\<lambda>a. nat \<bar>\<lfloor>log 2 a\<rfloor>\<bar>)")
  show "wf (measure (\<lambda>a. nat \<bar>\<lfloor>log 2 a\<rfloor>\<bar>))" by simp
next
  fix a :: real
  assume a: "2 \<le> a"
  then have l: "log 2 (a / 2) = log 2 a - 1"
    by (simp add: log_divide)
  have g: "\<lfloor>log 2 a - 1\<rfloor> = \<lfloor>log 2 a\<rfloor> - 1"
    by simp
  from a have "1 \<le> log 2 a"
    by (simp add: le_log_iff)
  then have f: "1 \<le> \<lfloor>log 2 a\<rfloor>"
    by (simp add: le_floor_iff)
  have "nat \<bar>\<lfloor>log 2 (a / 2)\<rfloor>\<bar> < nat \<bar>\<lfloor>log 2 a\<rfloor>\<bar>"
    unfolding l g using f by linarith
  then show "(a / 2, a) \<in> measure (\<lambda>a. nat \<bar>\<lfloor>log 2 a\<rfloor>\<bar>)"
    by simp
next
  fix a :: real
  assume "\<not> 2 \<le> a" and a: "0 < a \<and> a < 1"
  then have l: "log 2 (a * 2) = log 2 a + 1"
    by (simp add: log_mult)
  have g: "\<lfloor>log 2 a + 1\<rfloor> = \<lfloor>log 2 a\<rfloor> + 1"
    by simp
  from a have "log 2 a < 0"
    by simp
  then have f: "\<lfloor>log 2 a\<rfloor> \<le> - 1"
    by (simp add: floor_le_iff)
  have "nat \<bar>\<lfloor>log 2 (a * 2)\<rfloor>\<bar> < nat \<bar>\<lfloor>log 2 a\<rfloor>\<bar>"
    unfolding l g using f by linarith
  then show "(a * 2, a) \<in> measure (\<lambda>a. nat \<bar>\<lfloor>log 2 a\<rfloor>\<bar>)"
    by simp
qed

declare expo.simps [simp del]

text \<open>The nearest integer, a tie going to the even one.\<close>

definition round_even :: "real \<Rightarrow> int" where
  "round_even m =
     (let f = \<lfloor>m\<rfloor>; d = m - of_int f
      in if d < 1 / 2 then f else if 1 / 2 < d then f + 1 else if even f then f else f + 1)"

definition fl :: "real \<Rightarrow> real" where
  "fl x =
     (if x = 0 then 0
      else let e = (if \<bar>x\<bar> < pow2 (- 1022) then - 1022 else expo \<bar>x\<bar>); u = pow2 (e - 52)
           in of_int (round_even (x / u)) * u)"

text \<open>
  \<open>Num x\<close> is the finite number \<open>x\<close>; \<open>double x\<close> is the number that an operation with
  the exact result \<open>x\<close> returns. The sign of a zero is not modelled: the program compares,
  adds, multiplies and rounds its numbers and divides by nonzero numbers only, and none of
  these tells \<open>-0\<close> from \<open>0\<close>.
\<close>

datatype jsnum = NaN | PInf | NInf | Num real

definition double :: "real \<Rightarrow> jsnum" where
  "double x = (let r = fl x in if 2 ^ 1024 \<le> r then PInf else if r \<le> - (2 ^ 1024) then NInf else Num r)"

fun sign_of :: "jsnum \<Rightarrow> int" where
  "sign_of NaN = 0"
| "sign_of PInf = 1"
| "sign_of NInf = - 1"
| "sign_of (Num a) = (if 0 < a then 1 else if a < 0 then - 1 else 0)"

text \<open>The infinity of a sign; sign 0 stands for an undefined result, NaN.\<close>

definition inf_of :: "int \<Rightarrow> jsnum" where
  "inf_of s = (if 0 < s then PInf else if s < 0 then NInf else NaN)"

fun jadd :: "jsnum \<Rightarrow> jsnum \<Rightarrow> jsnum" where
  "jadd (Num a) (Num b) = double (a + b)"
| "jadd NaN y = NaN"
| "jadd x NaN = NaN"
| "jadd PInf NInf = NaN"
| "jadd NInf PInf = NaN"
| "jadd PInf y = PInf"
| "jadd x PInf = PInf"
| "jadd NInf y = NInf"
| "jadd x NInf = NInf"

text \<open>With an infinite factor the product is the infinity of the product of the signs, and NaN with a zero or NaN factor.\<close>

fun jmul :: "jsnum \<Rightarrow> jsnum \<Rightarrow> jsnum" where
  "jmul (Num a) (Num b) = double (a * b)"
| "jmul x y = inf_of (sign_of x * sign_of y)"

text \<open>A zero divisor is taken as \<open>+0\<close>; the program does not divide by zero.\<close>

fun jdiv :: "jsnum \<Rightarrow> jsnum \<Rightarrow> jsnum" where
  "jdiv (Num a) (Num b) = (if b = 0 then inf_of (sign_of (Num a)) else double (a / b))"
| "jdiv NaN y = NaN"
| "jdiv x NaN = NaN"
| "jdiv (Num a) y = Num 0"
| "jdiv x (Num b) = inf_of (sign_of x * (if b < 0 then - 1 else 1))"
| "jdiv x y = NaN"

fun jlt :: "jsnum \<Rightarrow> jsnum \<Rightarrow> bool" where
  "jlt (Num a) (Num b) = (a < b)"
| "jlt NaN y = False"
| "jlt x NaN = False"
| "jlt x NInf = False"
| "jlt NInf y = True"
| "jlt PInf y = False"
| "jlt x PInf = True"

fun jle :: "jsnum \<Rightarrow> jsnum \<Rightarrow> bool" where
  "jle (Num a) (Num b) = (a \<le> b)"
| "jle NaN y = False"
| "jle x NaN = False"
| "jle NInf y = True"
| "jle x PInf = True"
| "jle x NInf = False"
| "jle PInf y = False"

definition jgt :: "jsnum \<Rightarrow> jsnum \<Rightarrow> bool" where
  "jgt x y = jlt y x"

definition jge :: "jsnum \<Rightarrow> jsnum \<Rightarrow> bool" where
  "jge x y = jle y x"

fun isNaN :: "jsnum \<Rightarrow> bool" where
  "isNaN NaN = True"
| "isNaN x = False"

text \<open>\<open>Math.round\<close>: the nearest integer, a tie going to the one closer to plus infinity.\<close>

fun Math_round :: "jsnum \<Rightarrow> jsnum" where
  "Math_round (Num a) = double (of_int \<lfloor>a + 1 / 2\<rfloor>)"
| "Math_round x = x"

text \<open>The operator \<open>??\<close>: the right operand replaces a null or undefined left operand.\<close>

fun nullish :: "'a option \<Rightarrow> 'a \<Rightarrow> 'a" where
  "nullish None d = d"
| "nullish (Some v) d = v"

section \<open>Data model (state/types.ts)\<close>

datatype ProductCategory = Cooking | Cooling | Washing | Unknown

datatype light = red | amber | green

datatype Region = Mexico | EU_27 | USA | Renewables | Custom

record MappedRecord =
  Product :: string
  Category :: ProductCategory
  Transport_kgCO2e :: "jsnum option"
  Materials_kgCO2e :: "jsnum option"
  Production_kgCO2e :: "jsnum option"
  Use_kWh_per_year :: "jsnum option"
  Water_L :: "jsnum option"
  Recycling_Quota_pct :: "jsnum option"
  Local_Quota_pct :: "jsnum option"
  EU_Label :: "string option"

text \<open>
  \<open>factor\<close> is declared a number; \<open>computeKPIs\<close> still guards it with \<open>??\<close>, so the
  model lets it be absent.
\<close>

record GridFactors =
  region :: Region
  factor :: "jsnum option"

record Thresholds =
  usePhasePercentRed :: jsnum
  materialsKgRed :: jsnum
  productionKgGreen :: jsnum

record StageBreakdown =
  Transport :: jsnum
  Materials :: jsnum
  Production :: jsnum
  Use :: jsnum

record KPIStatus =
  UsePhase :: light
  Materials :: light
  Production :: light

record KPIResult =
  Product :: string
  Category :: ProductCategory
  UsePhase_CO2e :: jsnum
  Total_CO2e :: jsnum
  UsePhase_Share_Pct :: jsnum
  stageBreakdown :: StageBreakdown
  status :: KPIStatus

section \<open>KPI engine (kpi/engine.ts)\<close>

text \<open>
  The literals 0.25, 1.5, 10, 100 and 1000 are binary64 values; the literal \<open>0.7\<close> is the
  binary64 value nearest to seven tenths, \<open>fl (7 / 10)\<close>.
\<close>

definition round_kpi :: "jsnum \<Rightarrow> jsnum" where
  "round_kpi n = jdiv (Math_round (jmul n (Num 100))) (Num 100)"

definition kpi_life :: "(ProductCategory \<rightharpoonup> jsnum) \<Rightarrow> MappedRecord \<Rightarrow> jsnum" where
  "kpi_life lifetimeYears r = nullish (lifetimeYears (MappedRecord.Category r)) (Num 10)"

definition kpi_use :: "GridFactors \<Rightarrow> (ProductCategory \<rightharpoonup> jsnum) \<Rightarrow> MappedRecord \<Rightarrow> jsnum" where
  "kpi_use grid lifetimeYears r =
     jdiv (jmul (jmul (nullish (Use_kWh_per_year r) (Num 0)) (nullish (factor grid) (Num (1 / 4))))
                (kpi_life lifetimeYears r))
          (Num 1000)"

definition kpi_transport :: "MappedRecord \<Rightarrow> jsnum" where
  "kpi_transport r = nullish (Transport_kgCO2e r) (Num 0)"

definition kpi_materials :: "MappedRecord \<Rightarrow> jsnum" where
  "kpi_materials r = nullish (Materials_kgCO2e r) (Num 0)"

definition kpi_production :: "MappedRecord \<Rightarrow> jsnum" where
  "kpi_production r = nullish (Production_kgCO2e r) (Num 0)"

definition kpi_total :: "GridFactors \<Rightarrow> (ProductCategory \<rightharpoonup> jsnum) \<Rightarrow> MappedRecord \<Rightarrow> jsnum" where
  "kpi_total grid lifetimeYears r =
     jadd (jadd (jadd (kpi_transport r) (kpi_materials r)) (kpi_production r))
          (kpi_use grid lifetimeYears r)"

definition kpi_share :: "GridFactors \<Rightarrow> (ProductCategory \<rightharpoonup> jsnum) \<Rightarrow> MappedRecord \<Rightarrow> jsnum" where
  "kpi_share grid lifetimeYears r =
     (if jgt (kpi_total grid lifetimeYears r) (Num 0)
      then jmul (jdiv (kpi_use grid lifetimeYears r) (kpi_total grid lifetimeYears r)) (Num 100)
      else Num 0)"

definition kpi_status ::
  "GridFactors \<Rightarrow> (ProductCategory \<rightharpoonup> jsnum) \<Rightarrow> Thresholds \<Rightarrow> MappedRecord \<Rightarrow> KPIStatus" where
  "kpi_status grid lifetimeYears thresholds r =
     (let share = kpi_share grid lifetimeYears r;
          materials = kpi_materials r;
          production = kpi_production r
      in \<lparr> UsePhase =
             (if jge share (usePhasePercentRed thresholds) then red
              else if jge share (jmul (usePhasePercentRed thresholds) (Num (fl (7 / 10)))) then amber
              else green),
           KPIStatus.Materials =
             (if jge materials (materialsKgRed thresholds) then red
              else if jge materials (jmul (materialsKgRed thresholds) (Num (fl (7 / 10)))) then amber
              else green),
           KPIStatus.Production =
             (if jle production (productionKgGreen thresholds) then green
              else if jle production (jmul (productionKgGreen thresholds) (Num (3 / 2))) then amber
              else red) \<rparr>)"

definition computeKPI ::
  "GridFactors \<Rightarrow> (ProductCategory \<rightharpoonup> jsnum) \<Rightarrow> Thresholds \<Rightarrow> MappedRecord \<Rightarrow> KPIResult" where
  "computeKPI grid lifetimeYears thresholds r =
     \<lparr> KPIResult.Product = MappedRecord.Product r,
       KPIResult.Category = MappedRecord.Category r,
       UsePhase_CO2e = round_kpi (kpi_use grid lifetimeYears r),
       Total_CO2e = round_kpi (kpi_total grid lifetimeYears r),
       UsePhase_Share_Pct = round_kpi (kpi_share grid lifetimeYears r),
       stageBreakdown =
         \<lparr> Transport = round_kpi (kpi_transport r),
           StageBreakdown.Materials = round_kpi (kpi_materials r),
           StageBreakdown.Production = round_kpi (kpi_production r),
           Use = round_kpi (kpi_use grid lifetimeYears r) \<rparr>,
       status = kpi_status grid lifetimeYears thresholds r \<rparr>"

definition computeKPIs ::
  "MappedRecord list \<Rightarrow> GridFactors \<Rightarrow> (ProductCategory \<rightharpoonup> jsnum) \<Rightarrow> Thresholds \<Rightarrow> KPIResult list" where
  "computeKPIs records grid lifetimeYears thresholds =
     map (computeKPI grid lifetimeYears thresholds) records"

section \<open>Strings and JavaScript values\<close>

text \<open>
  Strings are byte strings. Case folding and white space are those of ASCII: the white
  space class \<open>\s\<close> is the blank and the control characters 9 to 13.
\<close>

definition lower_char :: "char \<Rightarrow> char" where
  "lower_char c =
     (case map_of (zip ''ABCDEFGHIJKLMNOPQRSTUVWXYZ'' ''abcdefghijklmnopqrstuvwxyz'') c of
        None \<Rightarrow> c
      | Some l \<Rightarrow> l)"

definition toLowerCase :: "string \<Rightarrow> string" where
  "toLowerCase s = map lower_char s"

definition isSpace :: "char \<Rightarrow> bool" where
  "isSpace c = (let n = (of_char c :: nat) in n = 32 \<or> (9 \<le> n \<and> n \<le> 13))"

fun startsWith :: "string \<Rightarrow> string \<Rightarrow> bool" where
  "startsWith s [] = True"
| "startsWith [] (k # ks) = False"
| "startsWith (c # s) (k # ks) = (c = k \<and> startsWith s ks)"

fun includes_js :: "string \<Rightarrow> string \<Rightarrow> bool" where
  "includes_js [] k = (k = [])"
| "includes_js (c # s) k = (startsWith (c # s) k \<or> includes_js s k)"

definition trim :: "string \<Rightarrow> string" where
  "trim s = rev (dropWhile isSpace (rev (dropWhile isSpace s)))"

text \<open>
  The values a spreadsheet cell or a row property can hold. \<open>String(v)\<close> takes the
  conversion of a number to its decimal text as a parameter \<open>nts\<close>: it is the
  runtime's, not the program's.
\<close>

datatype jsval = JUndefined | JNull | JBool bool | JNumber jsnum | JString string

fun String_js :: "(jsnum \<Rightarrow> string) \<Rightarrow> jsval \<Rightarrow> string" where
  "String_js nts JUndefined = ''undefined''"
| "String_js nts JNull = ''null''"
| "String_js nts (JBool b) = (if b then ''true'' else ''false'')"
| "String_js nts (JNumber n) = nts n"
| "String_js nts (JString s) = s"

fun is_nullish :: "jsval \<Rightarrow> bool" where
  "is_nullish JUndefined = True"
| "is_nullish JNull = True"
| "is_nullish _ = False"

fun falsy :: "jsval \<Rightarrow> bool" where
  "falsy JUndefined = True"
| "falsy JNull = True"
| "falsy (JBool b) = (\<not> b)"
| "falsy (JNumber n) = (n = NaN \<or> n = Num 0)"
| "falsy (JString s) = (s = [])"

section \<open>Validator (validation/validator.ts)\<close>

datatype Severity = sev_error | sev_warning

record ValidationIssue =
  rowIndex :: nat
  field :: string
  severity :: Severity
  message :: string

record DataQualitySummary =
  status :: light
  issues :: "ValidationIssue list"

definition req :: "(string \<times> (MappedRecord \<Rightarrow> jsnum option)) list" where
  "req = [(''Transport_kgCO2e'', Transport_kgCO2e), (''Materials_kgCO2e'', Materials_kgCO2e),
          (''Production_kgCO2e'', Production_kgCO2e), (''Use_kWh_per_year'', Use_kWh_per_year)]"

text \<open>One turn of the inner loop: the issues it pushes for field \<open>f\<close> of record \<open>r\<close>.\<close>

definition check_field :: "nat \<Rightarrow> MappedRecord \<Rightarrow> string \<times> (MappedRecord \<Rightarrow> jsnum option) \<Rightarrow> ValidationIssue list" where
  "check_field row r f =
     (case snd f r of
        None \<Rightarrow> [\<lparr> rowIndex = row, field = fst f, severity = sev_error, message = ''Missing required value'' \<rparr>]
      | Some v \<Rightarrow>
          if isNaN v then [\<lparr> rowIndex = row, field = fst f, severity = sev_error, message = ''Missing required value'' \<rparr>]
          else if jlt v (Num 0) then [\<lparr> rowIndex = row, field = fst f, severity = sev_error, message = ''Negative value'' \<rparr>]
          else if jgt v (Num 10000000) then [\<lparr> rowIndex = row, field = fst f, severity = sev_warning, message = ''Suspiciously large'' \<rparr>]
          else [])"

fun validate_loop :: "nat \<Rightarrow> MappedRecord list \<Rightarrow> ValidationIssue list" where
  "validate_loop idx [] = []"
| "validate_loop idx (r # rs) = concat (map (check_field (idx + 1) r) req) @ validate_loop (idx + 1) rs"

definition validate :: "MappedRecord list \<Rightarrow> DataQualitySummary" where
  "validate records =
     (let issues = validate_loop 0 records
      in \<lparr> DataQualitySummary.status =
             (if list_ex (\<lambda>i. severity i = sev_error) issues then red
              else if issues \<noteq> [] then amber else green),
           issues = issues \<rparr>)"

section \<open>Header detection (the ingestion worker)\<close>

definition keywordHints :: "string list" where
  "keywordHints = [''transport'', ''materials'', ''production'', ''use'', ''kwh'', ''product'']"

text \<open>\<open>String(cell ?? '').toLowerCase()\<close>\<close>

definition cell_text :: "(jsnum \<Rightarrow> string) \<Rightarrow> jsval \<Rightarrow> string" where
  "cell_text nts cell = toLowerCase (if is_nullish cell then [] else String_js nts cell)"

definition cell_hits :: "string \<Rightarrow> real" where
  "cell_hits v = (if list_ex (\<lambda>k. includes_js v k) keywordHints then 1 else 0)"

text \<open>The literal \<open>0.2\<close> is the binary64 value nearest to one fifth.\<close>

definition cell_len :: "string \<Rightarrow> real" where
  "cell_len v = (if length v > 0 then fl (1 / 5) else 0)"

text \<open>
  \<open>acc + hits + len\<close> is two binary64 additions, from the left. A score is a finite
  number: an accumulator of \<open>2^53\<close> or more absorbs what is added to it, so the sum stays
  far below the overflow threshold and no infinity arises.
\<close>

definition row_score :: "(jsnum \<Rightarrow> string) \<Rightarrow> jsval list \<Rightarrow> real" where
  "row_score nts r =
     foldl (\<lambda>acc cell. fl (fl (acc + cell_hits (cell_text nts cell)) + cell_len (cell_text nts cell))) 0 r"

text \<open>
  The loop state is \<open>(bestIdx, bestScore)\<close>; \<open>bestScore = None\<close> is the initial minus
  infinity, below every score.
\<close>

fun detect_loop :: "(jsnum \<Rightarrow> string) \<Rightarrow> nat \<Rightarrow> jsval list list \<Rightarrow> nat \<times> real option \<Rightarrow> nat \<times> real option" where
  "detect_loop nts i [] best = best"
| "detect_loop nts i (r # rs) best =
     (let score = row_score nts r
      in detect_loop nts (i + 1) rs
           (if (case snd best of None \<Rightarrow> True | Some b \<Rightarrow> score > b) then (i, Some score) else best))"

definition autoDetectHeaderRow :: "(jsnum \<Rightarrow> string) \<Rightarrow> jsval list list \<Rightarrow> nat" where
  "autoDetectHeaderRow nts rows = fst (detect_loop nts 0 (take (min 20 (length rows)) rows) (0, None))"

section \<open>Schema mapper (mapping/synonyms.ts, mapping/mapper.ts)\<close>

definition synonymTable :: "(string \<times> string list) list" where
  "synonymTable =
     [(''Product'', [''product'', ''sku'', ''item'', ''model'']),
      (''Category'', [''category'', ''segment'', ''family'', ''type'']),
      (''Transport_kgCO2e'', [''transport co2'', ''transport kgco2e'', ''co2e transport'', ''logistics co2'', ''shipping co2'']),
      (''Materials_kgCO2e'', [''materials co2'', ''materials kgco2e'', ''co2e materials'', ''material footprint'', ''bom co2'']),
      (''Production_kgCO2e'', [''production co2'', ''production kgco2e'', ''co2e production'', ''manufacturing co2'', ''factory co2'']),
      (''Use_kWh_per_year'', [''use kwh'', ''kwh per year'', ''annual kwh'', ''energy use'', ''electricity use'']),
      (''Water_L'', [''water'', ''water_l'', ''water (l)'', ''liters'', ''consumption water'']),
      (''Recycling_Quota_%'', [''recycling quota'', ''recycling %'', ''recycling rate'']),
      (''Local_Quota_%'', [''local quota'', ''local %'', ''local share'']),
      (''EU_Label'', [''eu label'', ''energy label''])]"

definition isSep :: "char \<Rightarrow> bool" where
  "isSep c = (c = CHR ''_'' \<or> c = CHR ''-'')"

text \<open>
  \<open>replace(/\s+|[_-]+/g, ' ')\<close>: from left to right, a maximal run of white space, or
  else a maximal run of underscores and hyphens, becomes one blank.
\<close>

function replace_runs :: "string \<Rightarrow> string" where
  "replace_runs [] = []"
| "replace_runs (c # cs) =
     (if isSpace c then CHR '' '' # replace_runs (dropWhile isSpace cs)
      else if isSep c then CHR '' '' # replace_runs (dropWhile isSep cs)
      else c # replace_runs cs)"
  by pat_completeness auto
termination
  by (relation "measure length") (auto simp: less_Suc_eq_le length_dropWhile_le)

definition normalizeHeader :: "string \<Rightarrow> string" where
  "normalizeHeader h = trim (replace_runs (toLowerCase h))"

text \<open>
  \<open>confidence\<close> is a minimum of 1 and a sum of one of 0 and 1 and one of 0 and 0.5: these
  sums are binary64 values, so that the additions are exact, and the scores are reals.
\<close>

record MapSuggestion =
  target :: string
  fromHeader :: "string option"
  confidence :: real

record MappingForSheet =
  sheetName :: string
  headerRowIndex :: nat
  suggestions :: "MapSuggestion list"

definition header_score :: "string list \<Rightarrow> string \<Rightarrow> real" where
  "header_score syns n = (if list_ex (\<lambda>s. includes_js n s) syns then 1 else 0)"

definition header_exact :: "string list \<Rightarrow> string \<Rightarrow> real" where
  "header_exact syns n = (if n \<in> set syns then 1 / 2 else 0)"

text \<open>One turn of the loop over the headers; the loop state is \<open>best = (from, score)\<close>.\<close>

definition suggest_step :: "string list \<Rightarrow> string \<times> string \<Rightarrow> string option \<times> real \<Rightarrow> string option \<times> real" where
  "suggest_step syns h best =
     (let score = header_score syns (snd h); exact = header_exact syns (snd h)
      in if score + exact > snd best then (Some (fst h), score + exact) else best)"

definition target_syns :: "string \<times> string list \<Rightarrow> string list" where
  "target_syns t = normalizeHeader (fst t) # map normalizeHeader (snd t)"

definition suggest_for :: "string list \<Rightarrow> string \<times> string list \<Rightarrow> MapSuggestion" where
  "suggest_for headers t =
     (let norm = map (\<lambda>h. (h, normalizeHeader h)) headers;
          best = foldl (\<lambda>b h. suggest_step (target_syns t) h b) (None, 0) norm
      in \<lparr> target = fst t, fromHeader = fst best, confidence = min 1 (snd best) \<rparr>)"

definition suggestMapping :: "string list \<Rightarrow> MapSuggestion list" where
  "suggestMapping headers = map (suggest_for headers) synonymTable"

subsection \<open>applyMapping\<close>

definition requiredTargets :: "string list" where
  "requiredTargets = [''Product'', ''Category'', ''Transport_kgCO2e'', ''Materials_kgCO2e'',
                      ''Production_kgCO2e'', ''Use_kWh_per_year'']"

text \<open>
  \<open>Object.fromEntries\<close> keeps the last entry of a key; \<open>s.fromHeader || undefined\<close>
  turns null and the empty string into undefined.
\<close>

definition fieldFrom :: "MapSuggestion list \<Rightarrow> string \<Rightarrow> string option" where
  "fieldFrom sugs t =
     (case map_of (rev (map (\<lambda>s. (target s, fromHeader s)) sugs)) t of
        Some (Some h) \<Rightarrow> if h = [] then None else Some h
      | _ \<Rightarrow> None)"

text \<open>
  A row object is its property read: an absent property reads \<open>undefined\<close>. Reading
  with an undefined key reads the property named \<open>undefined\<close>.
\<close>

type_synonym row = "string \<Rightarrow> jsval"

definition get_prop :: "row \<Rightarrow> string option \<Rightarrow> jsval" where
  "get_prop r k = r (case k of None \<Rightarrow> ''undefined'' | Some h \<Rightarrow> h)"

definition is_digit :: "char \<Rightarrow> bool" where
  "is_digit c = (let n = (of_char c :: nat) in 48 \<le> n \<and> n \<le> 57)"

definition digits_val :: "string \<Rightarrow> nat" where
  "digits_val ds = foldl (\<lambda>a c. 10 * a + (of_char c - 48)) 0 ds"

text \<open>
  \<open>Number(str)\<close> on what the filter of \<open>toNum\<close> leaves, a string over the digits,
  the dot and the hyphen: the empty string is 0; an optional sign before digits with at
  most one dot and at least one digit is that decimal, rounded to binary64; anything else
  is NaN. A decimal whose rounding reaches \<open>2^1024\<close> is an infinity.
\<close>

datatype numparse = PNaN | PInfinity | PNum real

definition unsigned_dec :: "string \<Rightarrow> real option" where
  "unsigned_dec s =
     (let ip = takeWhile is_digit s; rest = dropWhile is_digit s
      in case rest of
           [] \<Rightarrow> if ip = [] then None else Some (of_nat (digits_val ip))
         | c # fp \<Rightarrow>
             if c = CHR ''.'' \<and> list_all is_digit fp \<and> (ip \<noteq> [] \<or> fp \<noteq> [])
             then Some (of_nat (digits_val ip) + of_nat (digits_val fp) / 10 ^ length fp)
             else None)"

definition to_double :: "real \<Rightarrow> numparse" where
  "to_double x = (let r = fl x in if 2 ^ 1024 \<le> \<bar>r\<bar> then PInfinity else PNum r)"

definition Number_js :: "string \<Rightarrow> numparse" where
  "Number_js s =
     (case s of
        [] \<Rightarrow> PNum 0
      | c # u \<Rightarrow>
          if c = CHR ''-''
          then (case unsigned_dec u of None \<Rightarrow> PNaN | Some x \<Rightarrow> to_double (- x))
          else (case unsigned_dec s of None \<Rightarrow> PNaN | Some x \<Rightarrow> to_double x))"

definition comma_to_dot :: "char \<Rightarrow> char" where
  "comma_to_dot c = (if c = CHR '','' then CHR ''.'' else c)"

definition num_char :: "char \<Rightarrow> bool" where
  "num_char c = (is_digit c \<or> c = CHR ''.'' \<or> c = CHR ''-'')"

text \<open>A number is returned before any conversion to text, so \<open>String\<close> needs no \<open>nts\<close> here.\<close>

fun toNum :: "jsval \<Rightarrow> jsnum option" where
  "toNum JNull = None"
| "toNum JUndefined = None"
| "toNum (JNumber n) = Some n"
| "toNum v =
     (if v = JString [] then None
      else let str = filter num_char (map comma_to_dot (String_js (\<lambda>n. []) v))
           in case Number_js str of PNum n \<Rightarrow> Some (Num n) | _ \<Rightarrow> None)"

definition toCat :: "(jsnum \<Rightarrow> string) \<Rightarrow> jsval \<Rightarrow> ProductCategory" where
  "toCat nts v =
     (let s = toLowerCase (String_js nts (if falsy v then JString [] else v))
      in if startsWith s ''cook'' then Cooking
         else if startsWith s ''cool'' \<or> includes_js s ''fridge'' then Cooling
         else if startsWith s ''wash'' then Washing
         else Unknown)"

definition apply_row :: "(jsnum \<Rightarrow> string) \<Rightarrow> (string \<Rightarrow> string option) \<Rightarrow> row \<Rightarrow> MappedRecord" where
  "apply_row nts ff r =
     \<lparr> MappedRecord.Product =
         String_js nts (case ff ''Product'' of
                          Some h \<Rightarrow> r h
                        | None \<Rightarrow> if is_nullish (r ''Product'') then JString [] else r ''Product''),
       MappedRecord.Category =
         toCat nts (case ff ''Category'' of Some h \<Rightarrow> r h | None \<Rightarrow> r ''Category''),
       Transport_kgCO2e = toNum (get_prop r (ff ''Transport_kgCO2e'')),
       Materials_kgCO2e = toNum (get_prop r (ff ''Materials_kgCO2e'')),
       Production_kgCO2e = toNum (get_prop r (ff ''Production_kgCO2e'')),
       Use_kWh_per_year = toNum (get_prop r (ff ''Use_kWh_per_year'')),
       Water_L = toNum (get_prop r (ff ''Water_L'')),
       Recycling_Quota_pct = toNum (get_prop r (ff ''Recycling_Quota_%'')),
       Local_Quota_pct = toNum (get_prop r (ff ''Local_Quota_%'')),
       EU_Label =
         (let s = String_js nts (if is_nullish (get_prop r (ff ''EU_Label'')) then JString []
                                 else get_prop r (ff ''EU_Label''))
          in if s = [] then None else Some s) \<rparr>"

definition applyMapping :: "(jsnum \<Rightarrow> string) \<Rightarrow> row list \<Rightarrow> MappingForSheet \<Rightarrow> MappedRecord list \<times> string list" where
  "applyMapping nts rows mapping =
     (let ff = fieldFrom (suggestions mapping);
          missing = filter (\<lambda>t. ff t = None) requiredTargets
      in (map (apply_row nts ff) rows, missing))"

section \<open>The store (state/store.ts)\<close>

text \<open>
  The KPI list and the thresholds of the working state are JavaScript objects, held by
  reference: the model keeps them in a heap and the state holds their addresses. An entry
  of a KPI list is kept in its array cell: \<open>computeKPIs\<close> creates the entries together
  with their array, and no entry is put into two arrays. The other fields are never
  shared and are held by value.
\<close>

type_synonym addr = nat

record heap =
  arrays :: "addr \<Rightarrow> KPIResult list"
  threshs :: "addr \<Rightarrow> Thresholds"
  next_addr :: addr

record Totals =
  count :: nat
  totalCO2e :: jsnum

record Snapshot =
  at_iso :: string
  kpis :: addr
  totals :: Totals
  thresholds :: addr

record RawFileMeta =
  name :: string
  fromUpload :: bool
  sheetNames :: "string list"

record DetectedProduct =
  product :: string
  category :: ProductCategory
  sourceFile :: string
  sheet :: "string option"

record WizardState =
  stepIndex :: int
  files :: "RawFileMeta list"
  detected :: "DetectedProduct list"
  mappings :: "(string \<times> MappingForSheet) list"
  sheets :: "(string \<times> string list \<times> row list) list"
  records :: "MappedRecord list"
  dataQuality :: "DataQualitySummary option"
  gridFactor :: GridFactors
  lifetimeYears :: "ProductCategory \<rightharpoonup> jsnum"
  thresholds :: addr
  kpis :: addr
  lockedSnapshot :: "Snapshot option"
  busy :: bool
  error :: "string option"

type_synonym world = "heap \<times> WizardState"

definition alloc_array :: "heap \<Rightarrow> KPIResult list \<Rightarrow> heap \<times> addr" where
  "alloc_array h ks = (h\<lparr> arrays := (arrays h)(next_addr h := ks), next_addr := next_addr h + 1 \<rparr>, next_addr h)"

definition alloc_thresholds :: "heap \<Rightarrow> Thresholds \<Rightarrow> heap \<times> addr" where
  "alloc_thresholds h t = (h\<lparr> threshs := (threshs h)(next_addr h := t), next_addr := next_addr h + 1 \<rparr>, next_addr h)"

definition defaultThresholds :: Thresholds where
  "defaultThresholds = \<lparr> usePhasePercentRed = Num 60, materialsKgRed = Num 200, productionKgGreen = Num 100 \<rparr>"

definition init :: world where
  "init =
     (\<lparr> arrays = (\<lambda>a. []), threshs = (\<lambda>a. defaultThresholds), next_addr = 2 \<rparr>,
      \<lparr> stepIndex = 0, files = [], detected = [], mappings = [], sheets = [], records = [],
        dataQuality = None,
        gridFactor = \<lparr> region = EU_27, factor = Some (Num (1 / 4)) \<rparr>,
        lifetimeYears = [Cooking \<mapsto> Num 12, Cooling \<mapsto> Num 10, Washing \<mapsto> Num 8, Unknown \<mapsto> Num 10],
        WizardState.thresholds = 0, WizardState.kpis = 1,
        lockedSnapshot = None, busy = False, error = None \<rparr>)"

text \<open>
  \<open>structuredClone(state)\<close> copies every object once and keeps the sharing: a snapshot
  that refers to the live KPI list (or thresholds) refers to the copy of it afterwards.
\<close>

definition structuredClone :: "world \<Rightarrow> world" where
  "structuredClone w =
     (let h = fst w; s = snd w;
          (h1, t') = alloc_thresholds h (threshs h (WizardState.thresholds s));
          (h2, k') = alloc_array h1 (arrays h (WizardState.kpis s))
      in case lockedSnapshot s of
           None \<Rightarrow> (h2, s\<lparr> WizardState.thresholds := t', WizardState.kpis := k' \<rparr>)
         | Some sn \<Rightarrow>
             let (h3, sk) = (if Snapshot.kpis sn = WizardState.kpis s then (h2, k')
                             else alloc_array h2 (arrays h (Snapshot.kpis sn)));
                 (h4, st) = (if Snapshot.thresholds sn = WizardState.thresholds s then (h3, t')
                             else alloc_thresholds h3 (threshs h (Snapshot.thresholds sn)))
             in (h4, s\<lparr> WizardState.thresholds := t', WizardState.kpis := k',
                        lockedSnapshot := Some (sn\<lparr> Snapshot.kpis := sk, Snapshot.thresholds := st \<rparr>) \<rparr>))"

text \<open>
  \<open>set\<close> merges a patch into a shallow copy of the state; \<open>update\<close> runs a mutator on
  a structured clone. The listeners notified afterwards (rendering, session storage) do
  not write to the state.
\<close>

definition store_set :: "(WizardState \<Rightarrow> WizardState) \<Rightarrow> world \<Rightarrow> world" where
  "store_set patch w = (fst w, patch (snd w))"

definition store_update :: "(world \<Rightarrow> world) \<Rightarrow> world \<Rightarrow> world" where
  "store_update mutator w = mutator (structuredClone w)"

definition nextStep :: "world \<Rightarrow> world" where
  "nextStep = store_update (\<lambda>w. (fst w, (snd w)\<lparr> stepIndex := min 4 (stepIndex (snd w) + 1) \<rparr>))"

definition prevStep :: "world \<Rightarrow> world" where
  "prevStep = store_update (\<lambda>w. (fst w, (snd w)\<lparr> stepIndex := max 0 (stepIndex (snd w) - 1) \<rparr>))"

definition setRecords :: "MappedRecord list \<Rightarrow> world \<Rightarrow> world" where
  "setRecords rs = store_set (\<lambda>s. s\<lparr> records := rs \<rparr>)"

definition setKPIs :: "addr \<Rightarrow> world \<Rightarrow> world" where
  "setKPIs a = store_set (\<lambda>s. s\<lparr> WizardState.kpis := a \<rparr>)"

definition setThresholds :: "addr \<Rightarrow> world \<Rightarrow> world" where
  "setThresholds a = store_set (\<lambda>s. s\<lparr> WizardState.thresholds := a \<rparr>)"

text \<open>\<open>lock\<close>; the time stamp \<open>new Date().toISOString()\<close> is the parameter \<open>now\<close>.\<close>

definition lock :: "string \<Rightarrow> world \<Rightarrow> world" where
  "lock now w =
     (let state = snd w; ks = arrays (fst w) (WizardState.kpis state);
          snapshot = \<lparr> at_iso = now,
                       Snapshot.kpis = WizardState.kpis state,
                       totals = \<lparr> count = length ks, totalCO2e = foldl (\<lambda>a b. jadd a (Total_CO2e b)) (Num 0) ks \<rparr>,
                       Snapshot.thresholds = WizardState.thresholds state \<rparr>
      in store_set (\<lambda>s. s\<lparr> lockedSnapshot := Some snapshot \<rparr>) w)"

subsection \<open>Writes to the live KPI list\<close>

text \<open>
  A caller that passes a new array to \<open>setKPIs\<close>, as the compute button does, replaces
  the live list; likewise a new object passed to \<open>setThresholds\<close>. The mutators below edit
  the live list in place, as
  \<open>s.kpis.push(k)\<close> and \<open>s.kpis[i].Total_CO2e = v\<close> do; the second raises a
  \<open>TypeError\<close> where the list has no entry \<open>i\<close>.
\<close>

definition replace_kpis :: "KPIResult list \<Rightarrow> world \<Rightarrow> world" where
  "replace_kpis ks w = (let (h', a) = alloc_array (fst w) ks in setKPIs a (h', snd w))"

definition replace_thresholds :: "Thresholds \<Rightarrow> world \<Rightarrow> world" where
  "replace_thresholds t w = (let (h', a) = alloc_thresholds (fst w) t in setThresholds a (h', snd w))"

definition kpis_push :: "KPIResult \<Rightarrow> world \<Rightarrow> world" where
  "kpis_push k w =
     (let a = WizardState.kpis (snd w); h = fst w
      in (h\<lparr> arrays := (arrays h)(a := arrays h a @ [k]) \<rparr>, snd w))"

datatype js_error = TypeError

definition kpis_set_total :: "nat \<Rightarrow> jsnum \<Rightarrow> world \<Rightarrow> js_error + world" where
  "kpis_set_total i v w =
     (let a = WizardState.kpis (snd w); h = fst w
      in if i < length (arrays h a)
         then Inr (h\<lparr> arrays := (arrays h)(a := (arrays h a)[i := (arrays h a ! i)\<lparr> Total_CO2e := v \<rparr>]) \<rparr>, snd w)
         else Inl TypeError)"

text \<open>What a reader of the working state sees: the live list, and the locked snapshot with its references followed.\<close>

definition live_kpis :: "world \<Rightarrow> KPIResult list" where
  "live_kpis w = arrays (fst w) (WizardState.kpis (snd w))"

definition snapshot_view :: "world \<Rightarrow> (string \<times> KPIResult list \<times> Totals \<times> Thresholds) option" where
  "snapshot_view w =
     (case lockedSnapshot (snd w) of
        None \<Rightarrow> None
      | Some sn \<Rightarrow> Some (at_iso sn, arrays (fst w) (Snapshot.kpis sn), totals sn, threshs (fst w) (Snapshot.thresholds sn)))"

definition wf_world :: "world \<Rightarrow> bool" where
  "wf_world w = (WizardState.kpis (snd w) < next_addr (fst w) \<and> WizardState.thresholds (snd w) < next_addr (fst w))"

section \<open>The wizard (ui/Wizard.ts and the step views)\<close>

text \<open>
  The wizard shows the navigation bar and the view of step \<open>stepIndex\<close>, and renders both
  again after every change of the state. A click reaches a handler only if its button is
  shown and enabled in the current state.
\<close>

definition nav_click :: "int \<Rightarrow> world \<Rightarrow> world" where
  "nav_click idx w =
     (let canGo = idx \<le> stepIndex (snd w)
      in if canGo then store_set (\<lambda>s. s\<lparr> stepIndex := idx \<rparr>) w else w)"

text \<open>Step 2, the button \<open>Apply Mapping & Validate\<close>, enabled when a mapping exists.\<close>

definition step2_apply :: "(jsnum \<Rightarrow> string) \<Rightarrow> world \<Rightarrow> world" where
  "step2_apply nts w =
     (case mappings (snd w) of
        [] \<Rightarrow> w
      | (bufferKey, mapping) # _ \<Rightarrow>
          if bufferKey = [] then w
          else let rows = (case map_of (sheets (snd w)) bufferKey of None \<Rightarrow> [] | Some sh \<Rightarrow> snd sh);
                   (rs, missing) = applyMapping nts rows mapping;
                   dq = validate rs;
                   w1 = store_set (\<lambda>s. s\<lparr> records := rs, dataQuality := Some dq \<rparr>) w
               in if DataQualitySummary.status dq \<noteq> red then nextStep w1 else w1)"

definition click_apply :: "(jsnum \<Rightarrow> string) \<Rightarrow> world \<Rightarrow> world" where
  "click_apply nts w =
     (if stepIndex (snd w) = 1 \<and> mappings (snd w) \<noteq> [] then step2_apply nts w else w)"

text \<open>Step 3, the button \<open>Compute KPIs\<close>, disabled while there are no records.\<close>

definition step3_compute :: "world \<Rightarrow> world" where
  "step3_compute w =
     (let st = snd w;
          ks = computeKPIs (records st) (gridFactor st) (lifetimeYears st) (threshs (fst w) (WizardState.thresholds st))
      in nextStep (replace_kpis ks w))"

definition click_compute :: "world \<Rightarrow> world" where
  "click_compute w =
     (if stepIndex (snd w) = 2 \<and> records (snd w) \<noteq> [] then step3_compute w else w)"

text \<open>Step 4, the button \<open>Lock Baseline\<close>, disabled while there are no KPIs.\<close>

definition step4_lock :: "string \<Rightarrow> world \<Rightarrow> world" where
  "step4_lock now w = nextStep (lock now w)"

definition click_lock :: "string \<Rightarrow> world \<Rightarrow> world" where
  "click_lock now w =
     (if stepIndex (snd w) = 3 \<and> live_kpis w \<noteq> [] then step4_lock now w else w)"


section \<open>Observations and examples\<close>

text \<open>
  The definitions of this section are not program text: they state the properties below
  and give the inputs of their examples.
\<close>

subsection \<open>KPI engine\<close>

text \<open>Rounding half away from zero to two decimals, on reals, in the words of the specification.\<close>

definition round_half_away_2dp :: "real \<Rightarrow> real" where
  "round_half_away_2dp x = sgn x * of_int \<lfloor>\<bar>x\<bar> * 100 + 1 / 2\<rfloor> / 100"

text \<open>The record of the repository's KPI test, and one with a negative tie.\<close>

definition example_record :: MappedRecord where
  "example_record =
     \<lparr> MappedRecord.Product = ''X'', MappedRecord.Category = Cooking,
       Transport_kgCO2e = Some (Num 10), Materials_kgCO2e = Some (Num 20),
       Production_kgCO2e = Some (Num 30), Use_kWh_per_year = Some (Num 100),
       Water_L = None, Recycling_Quota_pct = None, Local_Quota_pct = None, EU_Label = None \<rparr>"

definition example_grid :: GridFactors where
  "example_grid = \<lparr> region = EU_27, factor = Some (Num (1 / 4)) \<rparr>"

definition negative_record :: MappedRecord where
  "negative_record = example_record\<lparr> Transport_kgCO2e := Some (Num (- 1 / 8)) \<rparr>"

text \<open>
  A record with no value at all, of a category without a lifetime, and a grid without a
  factor; a record with nothing but a use of 58 kWh; a record whose share is 57 in exact
  arithmetic, with a threshold of 57; two records that light the other lamps; a record with
  NaN for materials and production; a record whose transport is the binary64 value of 2.675.
\<close>

definition blank_record :: MappedRecord where
  "blank_record =
     \<lparr> MappedRecord.Product = ''Y'', MappedRecord.Category = Unknown,
       Transport_kgCO2e = None, Materials_kgCO2e = None,
       Production_kgCO2e = None, Use_kWh_per_year = None,
       Water_L = None, Recycling_Quota_pct = None, Local_Quota_pct = None, EU_Label = None \<rparr>"

definition no_factor_grid :: GridFactors where
  "no_factor_grid = \<lparr> region = Custom, factor = None \<rparr>"

definition use_58_record :: MappedRecord where
  "use_58_record = blank_record\<lparr> Use_kWh_per_year := Some (Num 58) \<rparr>"

definition share_57_record :: MappedRecord where
  "share_57_record =
     blank_record\<lparr> Transport_kgCO2e := Some (Num 43), Use_kWh_per_year := Some (Num 22800) \<rparr>"

definition thresholds_57 :: Thresholds where
  "thresholds_57 = \<lparr> usePhasePercentRed = Num 57, materialsKgRed = Num 200, productionKgGreen = Num 100 \<rparr>"

definition red_record :: MappedRecord where
  "red_record =
     blank_record\<lparr> Materials_kgCO2e := Some (Num 200), Production_kgCO2e := Some (Num 150),
                   Use_kWh_per_year := Some (Num 400000) \<rparr>"

definition amber_record :: MappedRecord where
  "amber_record =
     blank_record\<lparr> Transport_kgCO2e := Some (Num 9), Materials_kgCO2e := Some (Num 140),
                   Production_kgCO2e := Some (Num 151), Use_kWh_per_year := Some (Num 120000) \<rparr>"

definition nan_record :: MappedRecord where
  "nan_record = blank_record\<lparr> Materials_kgCO2e := Some NaN, Production_kgCO2e := Some NaN \<rparr>"

definition tie_2675_record :: MappedRecord where
  "tie_2675_record = blank_record\<lparr> Transport_kgCO2e := Some (Num (fl (2675 / 1000))) \<rparr>"

subsection \<open>Validator\<close>

text \<open>The record of the repository's validation test; an issue; the three conditions on a value.\<close>

definition bad_record :: MappedRecord where
  "bad_record =
     \<lparr> MappedRecord.Product = ''X'', MappedRecord.Category = Cooking,
       Transport_kgCO2e = None, Materials_kgCO2e = Some (Num (- 5)),
       Production_kgCO2e = Some (Num 0), Use_kWh_per_year = Some (Num 100000000),
       Water_L = None, Recycling_Quota_pct = None, Local_Quota_pct = None, EU_Label = None \<rparr>"

definition issue :: "nat \<Rightarrow> string \<Rightarrow> Severity \<Rightarrow> string \<Rightarrow> ValidationIssue" where
  "issue row f sev msg = \<lparr> rowIndex = row, field = f, severity = sev, message = msg \<rparr>"

definition is_missing :: "jsnum option \<Rightarrow> bool" where
  "is_missing v = (v = None \<or> v = Some NaN)"

definition is_negative :: "jsnum option \<Rightarrow> bool" where
  "is_negative v = (v = Some NInf \<or> (\<exists>x. v = Some (Num x) \<and> x < 0))"

definition is_large :: "jsnum option \<Rightarrow> bool" where
  "is_large v = (v = Some PInf \<or> (\<exists>x. v = Some (Num x) \<and> x > 10000000))"

subsection \<open>Header detection and mapping\<close>

text \<open>The score of a row of cell texts in the words of the specification: an exact sum.\<close>

definition spec_row_score :: "string list \<Rightarrow> real" where
  "spec_row_score texts =
     (\<Sum>v\<leftarrow>texts. (if \<exists>k\<in>set keywordHints. \<exists>p q. v = p @ k @ q then 1 else 0)
                   + (if v \<noteq> [] then 1 / 5 else 0))"

definition header_rows_example :: "jsval list list" where
  "header_rows_example =
     [[JString ''x'', JString ''y''],
      [JString ''Product'', JString ''Transport_kgCO2e'', JString ''Use_kWh_per_year'']]"

text \<open>Two rows with the same cells in another order; a row of keywords in capitals.\<close>

definition tie_rows :: "jsval list list" where
  "tie_rows =
     [[JString ''product'', JString ''a'', JString ''b'', JString ''c''],
      [JString ''a'', JString ''b'', JString ''c'', JString ''product'']]"

definition capital_rows :: "jsval list list" where
  "capital_rows =
     [[JString ''a'', JString ''b'', JString ''c''],
      [JString ''KWH'', JString ''PRODUCT'']]"

definition test_headers :: "string list" where
  "test_headers = [''Product'', ''Transport kgCO2e'']"

subsection \<open>Store and wizard\<close>

text \<open>The KPI list read through the locked snapshot.\<close>

definition snapshot_kpis :: "world \<Rightarrow> KPIResult list option" where
  "snapshot_kpis w = map_option (\<lambda>v. fst (snd v)) (snapshot_view w)"

definition example_kpi :: KPIResult where
  "example_kpi = computeKPI example_grid [Cooking \<mapsto> Num 10] defaultThresholds example_record"

text \<open>The state after computing one KPI from the initial state and locking it.\<close>

definition locked_example :: world where
  "locked_example = lock ''2026-01-01T00:00:00.000Z'' (replace_kpis [example_kpi] init)"

text \<open>
  Step 2 with one sheet of one row, none of whose headers matches a canonical field: the
  suggestions are those of \<open>suggestMapping\<close> for such headers.
\<close>

definition unmapped_example :: world where
  "unmapped_example =
     (fst init,
      (snd init)\<lparr> stepIndex := 1,
        mappings := [(''Upload::Data'',
                      \<lparr> sheetName = ''Data'', headerRowIndex = 0,
                        suggestions = map (\<lambda>t. \<lparr> target = fst t, fromHeader = None, confidence = 0 \<rparr>) synonymTable \<rparr>)],
        sheets := [(''Upload::Data'', [''foo''], [\<lambda>k. if k = ''foo'' then JString ''bar'' else JUndefined])] \<rparr>)"

section \<open>Properties of the arithmetic\<close>

text \<open>
  \<open>expo a\<close> is the binary exponent of a positive \<open>a\<close>; the rounding \<open>fl\<close> moves a number
  of the normal range by at most half a unit in the last place, a relative error of
  \<open>2^-53\<close>, and leaves the integers up to \<open>2^53\<close> as they are. On concrete numbers \<open>fl\<close> is
  evaluated by its equations.
\<close>

lemmas fl_eval = fl_def pow2_def expo.simps round_even_def Let_def

lemmas num_eval = double_def fl_eval jgt_def jge_def

lemma double_Num: "\<bar>fl x\<bar> < 2 ^ 1024 \<Longrightarrow> double x = Num (fl x)"
  by (auto simp: double_def Let_def)

lemma pow2_powi: "pow2 k = 2 powi k"
  by (simp add: pow2_def power_int_def inverse_eq_divide power_one_over)

lemma pow2_pos: "0 < pow2 k"
  by (simp add: pow2_def)

lemma pow2_add1: "pow2 (k + 1) = 2 * pow2 k"
  by (simp add: pow2_powi power_int_add)

lemma pow2_sub1: "pow2 (k - 1) = pow2 k / 2"
  by (simp add: pow2_powi power_int_diff)

lemma pow2_mono: "k \<le> l \<Longrightarrow> pow2 k \<le> pow2 l"
  by (simp add: pow2_powi power_int_increasing)

lemma pow2_less_imp: "pow2 k < pow2 l \<Longrightarrow> k < l"
  using pow2_mono [of l k] by (cases "k < l") simp_all

lemma expo_bounds: "0 < a \<Longrightarrow> pow2 (expo a) \<le> a \<and> a < pow2 (expo a + 1)"
proof (induction a rule: expo.induct)
  case (1 a)
  show ?case
  proof (cases "2 \<le> a")
    case True
    then have e: "expo a = expo (a / 2) + 1"
      by (subst expo.simps) simp
    from True 1(1) have "pow2 (expo (a / 2)) \<le> a / 2 \<and> a / 2 < pow2 (expo (a / 2) + 1)"
      by simp
    then show ?thesis
      unfolding e pow2_add1 by simp
  next
    case False
    show ?thesis
    proof (cases "a < 1")
      case True
      with False 1(3) have e: "expo a = expo (a * 2) - 1"
        by (subst expo.simps) simp
      from True False 1(2,3) have "pow2 (expo (a * 2)) \<le> a * 2 \<and> a * 2 < pow2 (expo (a * 2) + 1)"
        by simp
      then show ?thesis
        unfolding e pow2_sub1 by (simp add: pow2_add1)
    next
      case ge: False
      with False have e: "expo a = 0"
        by (subst expo.simps) simp
      from ge False show ?thesis
        unfolding e by (simp add: pow2_def)
    qed
  qed
qed

lemma expo_unique:
  assumes "0 < a" "pow2 e \<le> a" "a < pow2 (e + 1)"
  shows "expo a = e"
proof -
  from expo_bounds [OF assms(1)] assms(2,3)
  have "pow2 (expo a) < pow2 (e + 1)" "pow2 e < pow2 (expo a + 1)"
    by linarith+
  then have "expo a < e + 1" "e < expo a + 1"
    by (auto dest: pow2_less_imp)
  then show ?thesis
    by simp
qed

lemma round_even_of_int: "round_even (of_int m) = m"
  by (simp add: round_even_def)

lemma round_even_near: "\<bar>of_int (round_even m) - m\<bar> \<le> 1 / 2"
  unfolding round_even_def Let_def by (auto split: if_splits)

lemma fl_unfold:
  assumes "x \<noteq> 0" "pow2 (- 1022) \<le> \<bar>x\<bar>"
  shows "fl x = of_int (round_even (x / pow2 (expo \<bar>x\<bar> - 52))) * pow2 (expo \<bar>x\<bar> - 52)"
  using assms by (simp add: fl_def Let_def)

lemma fl_error:
  assumes "pow2 (- 1022) \<le> \<bar>x\<bar>"
  shows "\<bar>fl x - x\<bar> \<le> \<bar>x\<bar> / 2 ^ 53"
proof -
  define e where "e = expo \<bar>x\<bar>"
  define u where "u = pow2 (e - 52)"
  from assms pow2_pos [of "- 1022"] have x: "x \<noteq> 0" "0 < \<bar>x\<bar>"
    by auto
  have u: "0 < u"
    by (simp add: u_def pow2_pos)
  have f: "fl x = of_int (round_even (x / u)) * u"
    using fl_unfold [OF x(1) assms] by (simp add: u_def e_def)
  have "fl x - x = (of_int (round_even (x / u)) - x / u) * u"
    using u by (simp add: f field_simps)
  then have "\<bar>fl x - x\<bar> = \<bar>of_int (round_even (x / u)) - x / u\<bar> * u"
    using u by (simp add: abs_mult)
  also have "\<dots> \<le> 1 / 2 * u"
    using round_even_near [of "x / u"] u by (simp add: mult_right_mono)
  also have "1 / 2 * u = pow2 e / 2 ^ 53"
    by (simp add: u_def pow2_powi power_int_diff)
  also have "\<dots> \<le> \<bar>x\<bar> / 2 ^ 53"
    using expo_bounds [OF x(2)] by (simp add: e_def divide_right_mono)
  finally show ?thesis .
qed

lemma fl_bound:
  assumes "pow2 (- 1022) \<le> \<bar>x\<bar>"
  shows "\<bar>fl x\<bar> \<le> 2 * \<bar>x\<bar>"
proof -
  have "\<bar>x\<bar> / 2 ^ 53 \<le> \<bar>x\<bar>"
    by (simp add: field_simps)
  with fl_error [OF assms] show ?thesis
    by linarith
qed

lemma fl_of_int_less:
  assumes "\<bar>k\<bar> < 2 ^ 53"
  shows "fl (of_int k) = of_int k"
proof (cases "k = 0")
  case True
  then show ?thesis
    by (simp add: fl_def)
next
  case False
  define a :: real where "a = \<bar>of_int k\<bar>"
  define e where "e = expo a"
  from False have a1: "1 \<le> a"
    by (simp add: a_def)
  have small: "pow2 (- 1022) \<le> a"
    using a1 by (simp add: pow2_def)
  from assms have a53: "a < pow2 53"
    unfolding a_def pow2_def by (simp flip: of_int_abs)
  from a1 have a0: "0 < a"
    by simp
  from expo_bounds [OF a0] a53 a1 have "pow2 e < pow2 53" "pow2 0 < pow2 (e + 1)"
    by (simp_all add: e_def pow2_def)
  then have e: "e < 53" "0 \<le> e"
    by (auto dest: pow2_less_imp)
  define n where "n = nat (52 - e)"
  have u: "pow2 (e - 52) = 1 / 2 ^ n"
    using e by (simp add: pow2_def n_def)
  have q: "of_int k / pow2 (e - 52) = (of_int (k * 2 ^ n) :: real)"
    by (simp add: u)
  have "fl (of_int k) = of_int (round_even (of_int k / pow2 (e - 52))) * pow2 (e - 52)"
    using fl_unfold [of "of_int k"] False small by (simp add: a_def e_def)
  also have "\<dots> = of_int k"
    unfolding q round_even_of_int by (simp add: u)
  finally show ?thesis .
qed

lemma fl_2_53: "fl 9007199254740992 = 9007199254740992" "fl (- 9007199254740992) = - 9007199254740992"
  by (simp_all add: fl_eval)

lemma fl_of_int:
  assumes "\<bar>k\<bar> \<le> 2 ^ 53"
  shows "fl (of_int k) = of_int k"
proof -
  from assms consider "\<bar>k\<bar> < 2 ^ 53" | "k = 2 ^ 53" | "k = - (2 ^ 53)"
    by linarith
  then show ?thesis
    by cases (simp_all add: fl_of_int_less fl_2_53)
qed

lemma round_kpi_Num:
  assumes "\<bar>fl (x * 100)\<bar> < 2 ^ 53"
  shows "round_kpi (Num x) = Num (fl (of_int \<lfloor>fl (x * 100) + 1 / 2\<rfloor> / 100))"
proof -
  define p where "p = fl (x * 100)"
  define k where "k = \<lfloor>p + 1 / 2\<rfloor>"
  from assms have p: "\<bar>p\<bar> < 2 ^ 53"
    by (simp add: p_def)
  have m: "jmul (Num x) (Num 100) = Num p"
    using p by (simp add: double_Num p_def)
  from p have "- (2 ^ 53) < p + 1 / 2" "p + 1 / 2 < 2 ^ 53 + 1"
    by linarith+
  then have "- (2 ^ 53) \<le> k" "k < 2 ^ 53 + 1"
    unfolding k_def by (simp_all add: le_floor_iff floor_less_iff)
  then have k: "\<bar>k\<bar> \<le> 2 ^ 53"
    by linarith
  from k have "\<bar>real_of_int k\<bar> \<le> 2 ^ 53"
    by (simp flip: of_int_abs)
  also have "\<dots> < (2 :: real) ^ 1024"
    by simp
  finally have "\<bar>fl (of_int k)\<bar> < 2 ^ 1024"
    using k by (simp only: fl_of_int)
  then have "double (of_int k) = Num (of_int k)"
    using k by (simp only: double_Num fl_of_int)
  then have r: "Math_round (Num p) = Num (of_int k)"
    by (simp add: k_def)
  have "\<bar>fl (of_int k / 100)\<bar> < 2 ^ 1024"
  proof (cases "k = 0")
    case True
    then show ?thesis
      by (simp add: fl_def)
  next
    case False
    then have "1 \<le> \<bar>real_of_int k\<bar>"
      by (simp flip: of_int_abs)
    then have "pow2 (- 1022) \<le> \<bar>of_int k / 100 :: real\<bar>"
      by (simp add: pow2_def)
    from fl_bound [OF this] have "\<bar>fl (of_int k / 100)\<bar> \<le> 2 * \<bar>of_int k / 100 :: real\<bar>" .
    also have "\<dots> \<le> 2 ^ 53"
      using k by (simp flip: of_int_abs)
    also have "\<dots> < (2 :: real) ^ 1024"
      by simp
    finally show ?thesis .
  qed
  then have d: "jdiv (Num (of_int k)) (Num 100) = Num (fl (of_int k / 100))"
    by (simp add: double_Num)
  show ?thesis
    unfolding round_kpi_def m r d by (simp add: k_def p_def)
qed

text \<open>A comparison with NaN is false, and a product with NaN is NaN.\<close>

lemma inf_of_0 [simp]: "inf_of 0 = NaN"
  by (simp add: inf_of_def)

lemma jle_NaN [simp]: "jle v NaN = False" "jle NaN v = False"
  by (cases v; simp)+

lemma jlt_NaN [simp]: "jlt v NaN = False" "jlt NaN v = False"
  by (cases v; simp)+

lemma jmul_NaN [simp]: "jmul NaN c = NaN" "jmul c NaN = NaN"
  by (cases c; simp add: inf_of_def)+


section \<open>Properties of the KPI engine\<close>

lemmas kpi_raw = kpi_share_def kpi_total_def kpi_use_def kpi_life_def kpi_transport_def
  kpi_materials_def kpi_production_def

lemma nullish_case: "nullish x d = (case x of None \<Rightarrow> d | Some v \<Rightarrow> v)"
  by (cases x) simp_all

lemma computeKPIs_nth: "i < length recs \<Longrightarrow> computeKPIs recs grid ly th ! i = computeKPI grid ly th (recs ! i)"
  by (simp add: computeKPIs_def)

lemma example_use: "kpi_use example_grid [Cooking \<mapsto> Num 10] example_record = Num (1 / 4)"
  by (simp add: kpi_use_def kpi_life_def example_record_def example_grid_def num_eval)

lemma example_total: "kpi_total example_grid [Cooking \<mapsto> Num 10] example_record = Num (241 / 4)"
  unfolding kpi_total_def example_use
  by (simp add: kpi_transport_def kpi_materials_def kpi_production_def example_record_def num_eval)

lemma example_share:
  "kpi_share example_grid [Cooking \<mapsto> Num 10] example_record = Num (7474854153312027 / 2 ^ 54)"
  unfolding kpi_share_def example_use example_total by (simp add: num_eval)

lemma example_rounded:
  "round_kpi (Num (1 / 4)) = Num (1 / 4)"
  "round_kpi (Num (241 / 4)) = Num (241 / 4)"
  "round_kpi (Num 10) = Num 10"
  "round_kpi (Num 20) = Num 20"
  "round_kpi (Num 30) = Num 30"
  "round_kpi (Num (7474854153312027 / 2 ^ 54)) = Num (fl (41 / 100))"
  by (simp_all add: round_kpi_def num_eval)

lemma fl_41: "fl (41 / 100) = 7385903388887613 / 2 ^ 54"
  by (simp add: fl_eval)

lemma use_58_use: "kpi_use no_factor_grid Map.empty use_58_record = Num (5224175567749775 / 2 ^ 55)"
  by (simp add: kpi_use_def kpi_life_def use_58_record_def blank_record_def no_factor_grid_def num_eval)

lemma use_58_total: "kpi_total no_factor_grid Map.empty use_58_record = Num (5224175567749775 / 2 ^ 55)"
  unfolding kpi_total_def use_58_use
  by (simp add: kpi_transport_def kpi_materials_def kpi_production_def use_58_record_def blank_record_def num_eval)

lemma use_58_share: "kpi_share no_factor_grid Map.empty use_58_record = Num 100"
  unfolding kpi_share_def use_58_use use_58_total by (simp add: num_eval)

lemma use_58_rounded:
  "round_kpi (Num (5224175567749775 / 2 ^ 55)) = Num (fl (14 / 100))"
  "round_kpi (Num 100) = Num 100"
  by (simp_all add: round_kpi_def num_eval)

lemma blank_values:
  "kpi_use no_factor_grid Map.empty blank_record = Num 0"
  "kpi_total no_factor_grid Map.empty blank_record = Num 0"
  "kpi_share no_factor_grid Map.empty blank_record = Num 0"
  "round_kpi (Num 0) = Num 0"
  by (simp_all add: kpi_raw round_kpi_def blank_record_def no_factor_grid_def num_eval)


lemma UsePhase_status:
  "UsePhase (kpi_status grid ly th r) =
     (if jge (kpi_share grid ly r) (usePhasePercentRed th) then red
      else if jge (kpi_share grid ly r) (jmul (usePhasePercentRed th) (Num (fl (7 / 10)))) then amber
      else green)"
  by (simp add: kpi_status_def Let_def)

lemma Materials_status:
  "KPIStatus.Materials (kpi_status grid ly th r) =
     (if jge (kpi_materials r) (materialsKgRed th) then red
      else if jge (kpi_materials r) (jmul (materialsKgRed th) (Num (fl (7 / 10)))) then amber
      else green)"
  by (simp add: kpi_status_def Let_def)

lemma Production_status:
  "KPIStatus.Production (kpi_status grid ly th r) =
     (if jle (kpi_production r) (productionKgGreen th) then green
      else if jle (kpi_production r) (jmul (productionKgGreen th) (Num (3 / 2))) then amber
      else red)"
  by (simp add: kpi_status_def Let_def)

lemma not_jge_iff_jlt: "jge a (jmul b c) \<Longrightarrow> (\<not> jge a b) = jlt a b"
  by (cases a; cases b) (auto simp: jge_def)

lemma not_jle_iff_jlt: "jle a (jmul b c) \<Longrightarrow> (\<not> jle a b) = jlt b a"
  by (cases a; cases b) auto

lemma upper_status:
  "((if jge v x then red else if jge v (jmul x c) then amber else green) = red \<longleftrightarrow> jge v x) \<and>
   ((if jge v x then red else if jge v (jmul x c) then amber else green) = amber \<longleftrightarrow>
      jlt v x \<and> jge v (jmul x c)) \<and>
   ((if jge v x then red else if jge v (jmul x c) then amber else green) = green \<longleftrightarrow>
      \<not> jge v x \<and> \<not> jge v (jmul x c))"
  using not_jge_iff_jlt [of v x c] by auto

lemma lower_status:
  "((if jle v z then green else if jle v (jmul z c) then amber else red) = green \<longleftrightarrow> jle v z) \<and>
   ((if jle v z then green else if jle v (jmul z c) then amber else red) = amber \<longleftrightarrow>
      jlt z v \<and> jle v (jmul z c)) \<and>
   ((if jle v z then green else if jle v (jmul z c) then amber else red) = red \<longleftrightarrow>
      \<not> jle v z \<and> \<not> jle v (jmul z c))"
  using not_jle_iff_jlt [of v z c] by auto

lemma upper_status_Num:
  assumes "v = Num s" "x = Num a" "jmul x c = Num a7"
  shows "((if jge v x then red else if jge v (jmul x c) then amber else green) = red \<longleftrightarrow> a \<le> s) \<and>
   ((if jge v x then red else if jge v (jmul x c) then amber else green) = amber \<longleftrightarrow> s < a \<and> a7 \<le> s) \<and>
   ((if jge v x then red else if jge v (jmul x c) then amber else green) = green \<longleftrightarrow> s < a \<and> s < a7)"
  unfolding assms(3) unfolding assms(1,2) by (auto simp: jge_def)

lemma lower_status_Num:
  assumes "v = Num p" "z = Num c" "jmul z d = Num c15"
  shows "((if jle v z then green else if jle v (jmul z d) then amber else red) = green \<longleftrightarrow> p \<le> c) \<and>
   ((if jle v z then green else if jle v (jmul z d) then amber else red) = amber \<longleftrightarrow> c < p \<and> p \<le> c15) \<and>
   ((if jle v z then green else if jle v (jmul z d) then amber else red) = red \<longleftrightarrow> c < p \<and> c15 < p)"
  unfolding assms(3) unfolding assms(1,2) by auto

lemma upper_status_NaN:
  "isNaN v \<or> isNaN x \<Longrightarrow> (if jge v x then red else if jge v (jmul x c) then amber else green) = green"
  by (cases v; cases x) (auto simp: jge_def)

lemma lower_status_NaN:
  "isNaN v \<or> isNaN z \<Longrightarrow> (if jle v z then green else if jle v (jmul z c) then amber else red) = red"
  by (cases v; cases z) auto

lemma fl_7_10: "fl (7 / 10) = 3152519739159347 / 2 ^ 52"
  by (simp add: fl_eval)

lemma product_57: "jmul (Num 57) (Num (fl (7 / 10))) = Num (5615425785377587 / 2 ^ 47)"
  by (simp add: num_eval)

lemma red_values:
  "kpi_share example_grid [Cooking \<mapsto> Num 10] red_record = Num (1303124892178963 / 2 ^ 44)"
  by (simp add: kpi_raw red_record_def blank_record_def example_grid_def num_eval)

lemma amber_values:
  "kpi_share example_grid [Cooking \<mapsto> Num 10] amber_record = Num 50"
  by (simp add: kpi_raw amber_record_def blank_record_def example_grid_def num_eval)

lemma share_57_values:
  "kpi_use example_grid Map.empty share_57_record = Num 57"
  "kpi_total example_grid Map.empty share_57_record = Num 100"
  "kpi_share example_grid Map.empty share_57_record = Num (8022036836253695 / 2 ^ 47)"
  "round_kpi (Num (8022036836253695 / 2 ^ 47)) = Num 57"
  by (simp_all add: kpi_raw round_kpi_def share_57_record_def blank_record_def example_grid_def num_eval)

lemma tie_values:
  "round_kpi (Num (1 / 8)) = Num (fl (13 / 100))"
  "round_kpi (Num (- 1 / 8)) = Num (fl (- 12 / 100))"
  "round_kpi (Num (fl (2675 / 1000))) = Num (fl (268 / 100))"
  "round_kpi (Num (fl (145 / 1000))) = Num (fl (14 / 100))"
  by (simp_all add: round_kpi_def num_eval)

lemma fl_literals:
  "fl (2675 / 1000) = 3011782250804019 / 2 ^ 50"
  "fl (145 / 1000) = 5224175567749775 / 2 ^ 55"
  "fl (- 12 / 100) = - 1080863910568919 / 2 ^ 53"
  "fl (- 13 / 100) = - 1170935903116329 / 2 ^ 53"
  by (simp_all add: fl_eval)


text \<open>
  Claim C4. For every record, \<open>computeKPIs\<close> computes
  \<open>use_kg = (Use_kWh_per_year ?? 0) * (factor ?? 0.25) * life / 1000\<close> with \<open>life\<close> the
  lifetime of the category or 10, the total as the sum of transport, materials, production
  (each 0 when absent) and \<open>use_kg\<close>, and the share as \<open>use_kg / total * 100\<close> when the total
  is positive and 0 otherwise; its three outputs are these values rounded. The operations
  are those of binary64: on numbers each is the exact operation followed by one rounding
  \<open>fl\<close>, which stays within a relative error of \<open>2^-53\<close> from \<open>2^-1022\<close> on. For transport 10, materials 20,
  production 30, use 100 kWh, factor 0.25 and lifetime 10 the use is 0.25 and the outputs
  are 0.25, 60.25 (above 60) and the binary64 number 0.41 (above 0).
\<close>

theorem computeKPIs_formula:
  assumes "i < length recs"
  shows "(let r = recs ! i; k = computeKPIs recs grid ly th ! i;
              kwh = (case Use_kWh_per_year r of None \<Rightarrow> Num 0 | Some v \<Rightarrow> v);
              f = (case factor grid of None \<Rightarrow> Num (1 / 4) | Some v \<Rightarrow> v);
              life = (case ly (MappedRecord.Category r) of None \<Rightarrow> Num 10 | Some v \<Rightarrow> v);
              transport = (case Transport_kgCO2e r of None \<Rightarrow> Num 0 | Some v \<Rightarrow> v);
              materials = (case Materials_kgCO2e r of None \<Rightarrow> Num 0 | Some v \<Rightarrow> v);
              production = (case Production_kgCO2e r of None \<Rightarrow> Num 0 | Some v \<Rightarrow> v);
              use_kg = jdiv (jmul (jmul kwh f) life) (Num 1000);
              tot = jadd (jadd (jadd transport materials) production) use_kg;
              share = (if jgt tot (Num 0) then jmul (jdiv use_kg tot) (Num 100) else Num 0)
          in kpi_use grid ly r = use_kg \<and> kpi_total grid ly r = tot \<and> kpi_share grid ly r = share \<and>
             UsePhase_CO2e k = round_kpi use_kg \<and> Total_CO2e k = round_kpi tot \<and>
             UsePhase_Share_Pct k = round_kpi share) \<and>
         (\<forall>a b. jmul (Num a) (Num b) = double (a * b)) \<and>
         (\<forall>a b. jadd (Num a) (Num b) = double (a + b)) \<and>
         (\<forall>a b. b \<noteq> 0 \<longrightarrow> jdiv (Num a) (Num b) = double (a / b)) \<and>
         (\<forall>a. jgt (Num a) (Num 0) = (0 < a)) \<and>
         (\<forall>x. \<bar>fl x\<bar> < 2 ^ 1024 \<longrightarrow> double x = Num (fl x)) \<and>
         (\<forall>x. 1 / 2 ^ 1022 \<le> \<bar>x\<bar> \<longrightarrow> \<bar>fl x - x\<bar> \<le> \<bar>x\<bar> / 2 ^ 53) \<and>
         (let k = computeKPIs [example_record] example_grid [Cooking \<mapsto> Num 10] defaultThresholds ! 0
          in kpi_use example_grid [Cooking \<mapsto> Num 10] example_record = Num (1 / 4) \<and>
             UsePhase_CO2e k = Num (1 / 4) \<and> Total_CO2e k = Num (241 / 4) \<and>
             UsePhase_Share_Pct k = Num (fl (41 / 100)) \<and> \<bar>fl (41 / 100) - 41 / 100\<bar> < 1 / 2 ^ 54 \<and>
             jgt (Total_CO2e k) (Num 60) \<and> jgt (UsePhase_Share_Pct k) (Num 0))"
proof -
  have k: "computeKPIs recs grid ly th ! i = computeKPI grid ly th (recs ! i)"
    using assms by (rule computeKPIs_nth)
  have general: "(let r = recs ! i; k = computeKPIs recs grid ly th ! i;
              kwh = (case Use_kWh_per_year r of None \<Rightarrow> Num 0 | Some v \<Rightarrow> v);
              f = (case factor grid of None \<Rightarrow> Num (1 / 4) | Some v \<Rightarrow> v);
              life = (case ly (MappedRecord.Category r) of None \<Rightarrow> Num 10 | Some v \<Rightarrow> v);
              transport = (case Transport_kgCO2e r of None \<Rightarrow> Num 0 | Some v \<Rightarrow> v);
              materials = (case Materials_kgCO2e r of None \<Rightarrow> Num 0 | Some v \<Rightarrow> v);
              production = (case Production_kgCO2e r of None \<Rightarrow> Num 0 | Some v \<Rightarrow> v);
              use_kg = jdiv (jmul (jmul kwh f) life) (Num 1000);
              tot = jadd (jadd (jadd transport materials) production) use_kg;
              share = (if jgt tot (Num 0) then jmul (jdiv use_kg tot) (Num 100) else Num 0)
          in kpi_use grid ly r = use_kg \<and> kpi_total grid ly r = tot \<and> kpi_share grid ly r = share \<and>
             UsePhase_CO2e k = round_kpi use_kg \<and> Total_CO2e k = round_kpi tot \<and>
             UsePhase_Share_Pct k = round_kpi share)"
    unfolding Let_def k by (simp add: computeKPI_def kpi_raw nullish_case)
  have o1: "\<forall>a b. jmul (Num a) (Num b) = double (a * b)"
    and o2: "\<forall>a b. jadd (Num a) (Num b) = double (a + b)"
    and o3: "\<forall>a b. b \<noteq> 0 \<longrightarrow> jdiv (Num a) (Num b) = double (a / b)"
    and o4: "\<forall>a. jgt (Num a) (Num 0) = (0 < a)"
    by (simp_all add: jgt_def)
  have d: "\<forall>x. \<bar>fl x\<bar> < 2 ^ 1024 \<longrightarrow> double x = Num (fl x)"
    by (simp add: double_Num)
  have e: "\<forall>x. 1 / 2 ^ 1022 \<le> \<bar>x\<bar> \<longrightarrow> \<bar>fl x - x\<bar> \<le> \<bar>x\<bar> / 2 ^ 53"
    using fl_error by (simp add: pow2_def)
  have ek: "computeKPIs [example_record] example_grid [Cooking \<mapsto> Num 10] defaultThresholds ! 0
      = computeKPI example_grid [Cooking \<mapsto> Num 10] defaultThresholds example_record"
    by (simp add: computeKPIs_def)
  have example: "(let k = computeKPIs [example_record] example_grid [Cooking \<mapsto> Num 10] defaultThresholds ! 0
          in kpi_use example_grid [Cooking \<mapsto> Num 10] example_record = Num (1 / 4) \<and>
             UsePhase_CO2e k = Num (1 / 4) \<and> Total_CO2e k = Num (241 / 4) \<and>
             UsePhase_Share_Pct k = Num (fl (41 / 100)) \<and> \<bar>fl (41 / 100) - 41 / 100\<bar> < 1 / 2 ^ 54 \<and>
             jgt (Total_CO2e k) (Num 60) \<and> jgt (UsePhase_Share_Pct k) (Num 0))"
    unfolding Let_def ek computeKPI_def example_use example_total example_share example_rounded
    by (simp add: jgt_def fl_41)
  show ?thesis
    by (intro conjI general o1 o2 o3 o4 d e example)
qed

theorem computeKPIs_formula_witness:
  "jdiv (Num 250) (Num 1000) = Num (1 / 4) \<and>
   \<bar>fl (41 / 100) - 41 / 100\<bar> \<le> 41 / 100 / 2 ^ 53 \<and>
   (let k = computeKPIs [use_58_record] no_factor_grid Map.empty defaultThresholds ! 0
    in kpi_use no_factor_grid Map.empty use_58_record = Num (5224175567749775 / 2 ^ 55) \<and>
       5224175567749775 / 2 ^ 55 < (145 / 1000 :: real) \<and>
       UsePhase_CO2e k = Num (fl (14 / 100)) \<and> Total_CO2e k = Num (fl (14 / 100)) \<and>
       UsePhase_Share_Pct k = Num 100) \<and>
   (let k = computeKPIs [blank_record] no_factor_grid Map.empty defaultThresholds ! 0
    in UsePhase_CO2e k = Num 0 \<and> Total_CO2e k = Num 0 \<and> UsePhase_Share_Pct k = Num 0)"
proof -
  have p: "0 < length [use_58_record]" "0 < length [blank_record]"
    by simp_all
  from computeKPIs_formula [OF p(1), of no_factor_grid Map.empty defaultThresholds,
      unfolded Let_def, THEN conjunct1]
  have "UsePhase_CO2e (computeKPIs [use_58_record] no_factor_grid Map.empty defaultThresholds ! 0)
          = round_kpi (kpi_use no_factor_grid Map.empty use_58_record) \<and>
        Total_CO2e (computeKPIs [use_58_record] no_factor_grid Map.empty defaultThresholds ! 0)
          = round_kpi (kpi_total no_factor_grid Map.empty use_58_record) \<and>
        UsePhase_Share_Pct (computeKPIs [use_58_record] no_factor_grid Map.empty defaultThresholds ! 0)
          = round_kpi (kpi_share no_factor_grid Map.empty use_58_record)"
    by (simp only: nth_Cons_0)
  then have b: "(let k = computeKPIs [use_58_record] no_factor_grid Map.empty defaultThresholds ! 0
    in kpi_use no_factor_grid Map.empty use_58_record = Num (5224175567749775 / 2 ^ 55) \<and>
       5224175567749775 / 2 ^ 55 < (145 / 1000 :: real) \<and>
       UsePhase_CO2e k = Num (fl (14 / 100)) \<and> Total_CO2e k = Num (fl (14 / 100)) \<and>
       UsePhase_Share_Pct k = Num 100)"
    unfolding Let_def use_58_use use_58_total use_58_share use_58_rounded
    by simp
  from computeKPIs_formula [OF p(2), of no_factor_grid Map.empty defaultThresholds,
      unfolded Let_def, THEN conjunct1]
  have "UsePhase_CO2e (computeKPIs [blank_record] no_factor_grid Map.empty defaultThresholds ! 0)
          = round_kpi (kpi_use no_factor_grid Map.empty blank_record) \<and>
        Total_CO2e (computeKPIs [blank_record] no_factor_grid Map.empty defaultThresholds ! 0)
          = round_kpi (kpi_total no_factor_grid Map.empty blank_record) \<and>
        UsePhase_Share_Pct (computeKPIs [blank_record] no_factor_grid Map.empty defaultThresholds ! 0)
          = round_kpi (kpi_share no_factor_grid Map.empty blank_record)"
    by (simp only: nth_Cons_0)
  then have c: "(let k = computeKPIs [blank_record] no_factor_grid Map.empty defaultThresholds ! 0
    in UsePhase_CO2e k = Num 0 \<and> Total_CO2e k = Num 0 \<and> UsePhase_Share_Pct k = Num 0)"
    unfolding Let_def blank_values
    by simp
  note t = computeKPIs_formula [OF p(1), of no_factor_grid Map.empty defaultThresholds]
  note o3 = t [THEN conjunct2, THEN conjunct2, THEN conjunct2, THEN conjunct1, rule_format, of 1000 250]
  note d = t [THEN conjunct2, THEN conjunct2, THEN conjunct2, THEN conjunct2, THEN conjunct2, THEN conjunct1,
      rule_format, of "1 / 4"]
  note e = t [THEN conjunct2, THEN conjunct2, THEN conjunct2, THEN conjunct2, THEN conjunct2, THEN conjunct2,
      THEN conjunct1, rule_format, of "41 / 100"]
  have f: "fl (1 / 4) = 1 / 4"
    by (simp add: fl_eval)
  have "double (1 / 4) = Num (1 / 4)"
    using d unfolding f by simp
  moreover have "jdiv (Num 250) (Num 1000) = double (250 / 1000)"
    using o3 by simp
  ultimately have q: "jdiv (Num 250) (Num 1000) = Num (1 / 4)"
    by simp
  have r: "\<bar>fl (41 / 100) - 41 / 100\<bar> \<le> 41 / 100 / 2 ^ 53"
    using e by simp
  show ?thesis
    by (intro conjI q r b c)
qed

text \<open>
  Claim C5. The status of every result: UsePhase is red iff the share is at least
  \<open>usePhasePercentRed\<close>, amber iff it is below that and at least 0.7 times it, green
  otherwise; Materials likewise against \<open>materialsKgRed\<close>; Production is green iff
  production is at most \<open>productionKgGreen\<close>, amber iff it is above that and at most 1.5
  times it, red otherwise. The share is the unrounded binary64 value the record's KPI is
  computed from, the products are binary64 products with the binary64 numbers 0.7 and 1.5,
  and the comparisons are those of the numbers; a comparison with NaN is false, so that a
  NaN share or threshold gives a green UsePhase and a NaN production or threshold a red
  Production.
\<close>

theorem computeKPIs_status:
  assumes "i < length recs"
  shows "(let r = recs ! i;
              st = KPIResult.status (computeKPIs recs grid ly th ! i);
              share = kpi_share grid ly r;
              materials = (case Materials_kgCO2e r of None \<Rightarrow> Num 0 | Some v \<Rightarrow> v);
              production = (case Production_kgCO2e r of None \<Rightarrow> Num 0 | Some v \<Rightarrow> v);
              x = usePhasePercentRed th; y = materialsKgRed th; z = productionKgGreen th;
              x7 = jmul x (Num (fl (7 / 10))); y7 = jmul y (Num (fl (7 / 10))); z15 = jmul z (Num (3 / 2))
          in ((UsePhase st = red \<longleftrightarrow> jge share x) \<and>
              (UsePhase st = amber \<longleftrightarrow> jlt share x \<and> jge share x7) \<and>
              (UsePhase st = green \<longleftrightarrow> \<not> jge share x \<and> \<not> jge share x7) \<and>
              (KPIStatus.Materials st = red \<longleftrightarrow> jge materials y) \<and>
              (KPIStatus.Materials st = amber \<longleftrightarrow> jlt materials y \<and> jge materials y7) \<and>
              (KPIStatus.Materials st = green \<longleftrightarrow> \<not> jge materials y \<and> \<not> jge materials y7) \<and>
              (KPIStatus.Production st = green \<longleftrightarrow> jle production z) \<and>
              (KPIStatus.Production st = amber \<longleftrightarrow> jlt z production \<and> jle production z15) \<and>
              (KPIStatus.Production st = red \<longleftrightarrow> \<not> jle production z \<and> \<not> jle production z15)) \<and>
             (\<forall>s a a7. share = Num s \<and> x = Num a \<and> x7 = Num a7 \<longrightarrow>
                (UsePhase st = red \<longleftrightarrow> a \<le> s) \<and>
                (UsePhase st = amber \<longleftrightarrow> s < a \<and> a7 \<le> s) \<and>
                (UsePhase st = green \<longleftrightarrow> s < a \<and> s < a7)) \<and>
             (\<forall>m b b7. materials = Num m \<and> y = Num b \<and> y7 = Num b7 \<longrightarrow>
                (KPIStatus.Materials st = red \<longleftrightarrow> b \<le> m) \<and>
                (KPIStatus.Materials st = amber \<longleftrightarrow> m < b \<and> b7 \<le> m) \<and>
                (KPIStatus.Materials st = green \<longleftrightarrow> m < b \<and> m < b7)) \<and>
             (\<forall>p c c15. production = Num p \<and> z = Num c \<and> z15 = Num c15 \<longrightarrow>
                (KPIStatus.Production st = green \<longleftrightarrow> p \<le> c) \<and>
                (KPIStatus.Production st = amber \<longleftrightarrow> c < p \<and> p \<le> c15) \<and>
                (KPIStatus.Production st = red \<longleftrightarrow> c < p \<and> c15 < p)) \<and>
             (isNaN share \<or> isNaN x \<longrightarrow> UsePhase st = green) \<and>
             (isNaN materials \<or> isNaN y \<longrightarrow> KPIStatus.Materials st = green) \<and>
             (isNaN production \<or> isNaN z \<longrightarrow> KPIStatus.Production st = red)) \<and>
         (\<forall>a. jmul (Num a) (Num (fl (7 / 10))) = double (a * fl (7 / 10))) \<and>
         (\<forall>a. jmul (Num a) (Num (3 / 2)) = double (a * (3 / 2))) \<and>
         fl (7 / 10) = 3152519739159347 / 2 ^ 52 \<and> \<bar>fl (7 / 10) - 7 / 10\<bar> < 1 / 2 ^ 54"
proof -
  have k: "KPIResult.status (computeKPIs recs grid ly th ! i) = kpi_status grid ly th (recs ! i)"
    using assms by (simp add: computeKPIs_def computeKPI_def)
  have m: "(case Materials_kgCO2e (recs ! i) of None \<Rightarrow> Num 0 | Some v \<Rightarrow> v) = kpi_materials (recs ! i)"
    and p: "(case Production_kgCO2e (recs ! i) of None \<Rightarrow> Num 0 | Some v \<Rightarrow> v) = kpi_production (recs ! i)"
    by (simp_all add: kpi_materials_def kpi_production_def nullish_case)
  note u1 = upper_status [of "kpi_share grid ly (recs ! i)" "usePhasePercentRed th" "Num (fl (7 / 10))"]
  note u2 = upper_status [of "kpi_materials (recs ! i)" "materialsKgRed th" "Num (fl (7 / 10))"]
  note u3 = lower_status [of "kpi_production (recs ! i)" "productionKgGreen th" "Num (3 / 2)"]
  have cascade: "(UsePhase (kpi_status grid ly th (recs ! i)) = red \<longleftrightarrow> jge (kpi_share grid ly (recs ! i)) (usePhasePercentRed th)) \<and>
      (UsePhase (kpi_status grid ly th (recs ! i)) = amber \<longleftrightarrow>
         jlt (kpi_share grid ly (recs ! i)) (usePhasePercentRed th) \<and>
         jge (kpi_share grid ly (recs ! i)) (jmul (usePhasePercentRed th) (Num (fl (7 / 10))))) \<and>
      (UsePhase (kpi_status grid ly th (recs ! i)) = green \<longleftrightarrow>
         \<not> jge (kpi_share grid ly (recs ! i)) (usePhasePercentRed th) \<and>
         \<not> jge (kpi_share grid ly (recs ! i)) (jmul (usePhasePercentRed th) (Num (fl (7 / 10))))) \<and>
      (KPIStatus.Materials (kpi_status grid ly th (recs ! i)) = red \<longleftrightarrow> jge (kpi_materials (recs ! i)) (materialsKgRed th)) \<and>
      (KPIStatus.Materials (kpi_status grid ly th (recs ! i)) = amber \<longleftrightarrow>
         jlt (kpi_materials (recs ! i)) (materialsKgRed th) \<and>
         jge (kpi_materials (recs ! i)) (jmul (materialsKgRed th) (Num (fl (7 / 10))))) \<and>
      (KPIStatus.Materials (kpi_status grid ly th (recs ! i)) = green \<longleftrightarrow>
         \<not> jge (kpi_materials (recs ! i)) (materialsKgRed th) \<and>
         \<not> jge (kpi_materials (recs ! i)) (jmul (materialsKgRed th) (Num (fl (7 / 10))))) \<and>
      (KPIStatus.Production (kpi_status grid ly th (recs ! i)) = green \<longleftrightarrow> jle (kpi_production (recs ! i)) (productionKgGreen th)) \<and>
      (KPIStatus.Production (kpi_status grid ly th (recs ! i)) = amber \<longleftrightarrow>
         jlt (productionKgGreen th) (kpi_production (recs ! i)) \<and>
         jle (kpi_production (recs ! i)) (jmul (productionKgGreen th) (Num (3 / 2)))) \<and>
      (KPIStatus.Production (kpi_status grid ly th (recs ! i)) = red \<longleftrightarrow>
         \<not> jle (kpi_production (recs ! i)) (productionKgGreen th) \<and>
         \<not> jle (kpi_production (recs ! i)) (jmul (productionKgGreen th) (Num (3 / 2))))"
    unfolding UsePhase_status Materials_status Production_status
    using u1 u2 u3 by (intro conjI) (elim conjE, assumption)+
  have n1: "\<forall>s a a7. kpi_share grid ly (recs ! i) = Num s \<and> usePhasePercentRed th = Num a \<and>
        jmul (usePhasePercentRed th) (Num (fl (7 / 10))) = Num a7 \<longrightarrow>
        (UsePhase (kpi_status grid ly th (recs ! i)) = red \<longleftrightarrow> a \<le> s) \<and>
        (UsePhase (kpi_status grid ly th (recs ! i)) = amber \<longleftrightarrow> s < a \<and> a7 \<le> s) \<and>
        (UsePhase (kpi_status grid ly th (recs ! i)) = green \<longleftrightarrow> s < a \<and> s < a7)"
    unfolding UsePhase_status using upper_status_Num by blast
  have n2: "\<forall>m b b7. kpi_materials (recs ! i) = Num m \<and> materialsKgRed th = Num b \<and>
        jmul (materialsKgRed th) (Num (fl (7 / 10))) = Num b7 \<longrightarrow>
        (KPIStatus.Materials (kpi_status grid ly th (recs ! i)) = red \<longleftrightarrow> b \<le> m) \<and>
        (KPIStatus.Materials (kpi_status grid ly th (recs ! i)) = amber \<longleftrightarrow> m < b \<and> b7 \<le> m) \<and>
        (KPIStatus.Materials (kpi_status grid ly th (recs ! i)) = green \<longleftrightarrow> m < b \<and> m < b7)"
    unfolding Materials_status using upper_status_Num by blast
  have n3: "\<forall>p c c15. kpi_production (recs ! i) = Num p \<and> productionKgGreen th = Num c \<and>
        jmul (productionKgGreen th) (Num (3 / 2)) = Num c15 \<longrightarrow>
        (KPIStatus.Production (kpi_status grid ly th (recs ! i)) = green \<longleftrightarrow> p \<le> c) \<and>
        (KPIStatus.Production (kpi_status grid ly th (recs ! i)) = amber \<longleftrightarrow> c < p \<and> p \<le> c15) \<and>
        (KPIStatus.Production (kpi_status grid ly th (recs ! i)) = red \<longleftrightarrow> c < p \<and> c15 < p)"
    unfolding Production_status using lower_status_Num by blast
  have a1: "isNaN (kpi_share grid ly (recs ! i)) \<or> isNaN (usePhasePercentRed th) \<longrightarrow>
        UsePhase (kpi_status grid ly th (recs ! i)) = green"
    unfolding UsePhase_status using upper_status_NaN by blast
  have a2: "isNaN (kpi_materials (recs ! i)) \<or> isNaN (materialsKgRed th) \<longrightarrow>
        KPIStatus.Materials (kpi_status grid ly th (recs ! i)) = green"
    unfolding Materials_status using upper_status_NaN by blast
  have a3: "isNaN (kpi_production (recs ! i)) \<or> isNaN (productionKgGreen th) \<longrightarrow>
        KPIStatus.Production (kpi_status grid ly th (recs ! i)) = red"
    unfolding Production_status using lower_status_NaN by blast
  have o1: "\<forall>a. jmul (Num a) (Num (fl (7 / 10))) = double (a * fl (7 / 10))"
    and o2: "\<forall>a. jmul (Num a) (Num (3 / 2)) = double (a * (3 / 2))"
    by simp_all
  have f: "fl (7 / 10) = 3152519739159347 / 2 ^ 52"
    by (rule fl_7_10)
  have g: "\<bar>fl (7 / 10) - 7 / 10\<bar> < 1 / 2 ^ 54"
    by (simp add: fl_7_10)
  show ?thesis
    unfolding Let_def k m p
    by (intro conjI cascade n1 n2 n3 a1 a2 a3 o1 o2 f g)
qed

theorem computeKPIs_status_witness:
  "(let ks = computeKPIs [example_record, red_record, amber_record] example_grid [Cooking \<mapsto> Num 10] defaultThresholds
    in UsePhase (KPIResult.status (ks ! 0)) = green \<and> KPIStatus.Materials (KPIResult.status (ks ! 0)) = green \<and>
       KPIStatus.Production (KPIResult.status (ks ! 0)) = green \<and>
       UsePhase (KPIResult.status (ks ! 1)) = red \<and> KPIStatus.Materials (KPIResult.status (ks ! 1)) = red \<and>
       KPIStatus.Production (KPIResult.status (ks ! 1)) = amber \<and>
       UsePhase (KPIResult.status (ks ! 2)) = amber \<and> KPIStatus.Materials (KPIResult.status (ks ! 2)) = amber \<and>
       KPIStatus.Production (KPIResult.status (ks ! 2)) = red) \<and>
   (let k = computeKPIs [share_57_record] example_grid Map.empty thresholds_57 ! 0
    in kpi_use example_grid Map.empty share_57_record = Num 57 \<and>
       kpi_total example_grid Map.empty share_57_record = Num 100 \<and>
       kpi_share example_grid Map.empty share_57_record = Num (8022036836253695 / 2 ^ 47) \<and>
       8022036836253695 / 2 ^ 47 < (57 :: real) \<and>
       UsePhase (KPIResult.status k) = amber \<and> UsePhase_Share_Pct k = Num 57) \<and>
   (let k = computeKPIs [nan_record] example_grid Map.empty defaultThresholds ! 0
    in UsePhase (KPIResult.status k) = green \<and> KPIStatus.Materials (KPIResult.status k) = green \<and>
       KPIStatus.Production (KPIResult.status k) = red)"
proof -
  have l: "0 < length [example_record, red_record, amber_record]"
    "1 < length [example_record, red_record, amber_record]"
    "2 < length [example_record, red_record, amber_record]"
    "0 < length [share_57_record]"
    by simp_all
  have n: "[example_record, red_record, amber_record] ! 0 = example_record"
    "[example_record, red_record, amber_record] ! 1 = red_record"
    "[example_record, red_record, amber_record] ! 2 = amber_record"
    "[share_57_record] ! 0 = share_57_record"
    by simp_all
  note t = computeKPIs_status [of _ _ example_grid "[Cooking \<mapsto> Num 10]" defaultThresholds, unfolded Let_def,
      THEN conjunct1, THEN conjunct1]
  have a: "UsePhase (KPIResult.status (computeKPIs [example_record, red_record, amber_record] example_grid [Cooking \<mapsto> Num 10] defaultThresholds ! 0)) = green \<and>
      KPIStatus.Materials (KPIResult.status (computeKPIs [example_record, red_record, amber_record] example_grid [Cooking \<mapsto> Num 10] defaultThresholds ! 0)) = green \<and>
      KPIStatus.Production (KPIResult.status (computeKPIs [example_record, red_record, amber_record] example_grid [Cooking \<mapsto> Num 10] defaultThresholds ! 0)) = green"
    using t [OF l(1), unfolded n example_share]
    by (simp add: defaultThresholds_def example_record_def num_eval)
  have b: "UsePhase (KPIResult.status (computeKPIs [example_record, red_record, amber_record] example_grid [Cooking \<mapsto> Num 10] defaultThresholds ! 1)) = red \<and>
      KPIStatus.Materials (KPIResult.status (computeKPIs [example_record, red_record, amber_record] example_grid [Cooking \<mapsto> Num 10] defaultThresholds ! 1)) = red \<and>
      KPIStatus.Production (KPIResult.status (computeKPIs [example_record, red_record, amber_record] example_grid [Cooking \<mapsto> Num 10] defaultThresholds ! 1)) = amber"
    using t [OF l(2), unfolded n red_values]
    by (simp add: defaultThresholds_def red_record_def blank_record_def num_eval)
  have c: "UsePhase (KPIResult.status (computeKPIs [example_record, red_record, amber_record] example_grid [Cooking \<mapsto> Num 10] defaultThresholds ! 2)) = amber \<and>
      KPIStatus.Materials (KPIResult.status (computeKPIs [example_record, red_record, amber_record] example_grid [Cooking \<mapsto> Num 10] defaultThresholds ! 2)) = amber \<and>
      KPIStatus.Production (KPIResult.status (computeKPIs [example_record, red_record, amber_record] example_grid [Cooking \<mapsto> Num 10] defaultThresholds ! 2)) = red"
    using t [OF l(3), unfolded n amber_values]
    by (simp add: defaultThresholds_def amber_record_def blank_record_def num_eval)
  have d: "UsePhase (KPIResult.status (computeKPIs [share_57_record] example_grid Map.empty thresholds_57 ! 0)) = amber"
  proof -
    note n1 = computeKPIs_status [OF l(4), of example_grid Map.empty thresholds_57, unfolded Let_def n,
        THEN conjunct1, THEN conjunct2, THEN conjunct1, rule_format,
        of "8022036836253695 / 2 ^ 47" 57 "5615425785377587 / 2 ^ 47"]
    have x: "usePhasePercentRed thresholds_57 = Num 57"
      by (simp add: thresholds_57_def)
    have h: "kpi_share example_grid Map.empty share_57_record = Num (8022036836253695 / 2 ^ 47) \<and>
        usePhasePercentRed thresholds_57 = Num 57 \<and>
        jmul (usePhasePercentRed thresholds_57) (Num (fl (7 / 10))) = Num (5615425785377587 / 2 ^ 47)"
      unfolding x by (intro conjI share_57_values(3) refl product_57)
    from n1 [OF h] show ?thesis
      by simp
  qed
  have g: "UsePhase (KPIResult.status (computeKPIs [nan_record] example_grid Map.empty defaultThresholds ! 0)) = green \<and>
      KPIStatus.Materials (KPIResult.status (computeKPIs [nan_record] example_grid Map.empty defaultThresholds ! 0)) = green \<and>
      KPIStatus.Production (KPIResult.status (computeKPIs [nan_record] example_grid Map.empty defaultThresholds ! 0)) = red"
  proof -
    have l: "0 < length [nan_record]"
      by simp
    note q = computeKPIs_status [OF l, of example_grid Map.empty defaultThresholds, unfolded Let_def,
        THEN conjunct1, THEN conjunct2, THEN conjunct2, THEN conjunct2, THEN conjunct2]
    have s: "kpi_share example_grid Map.empty nan_record = Num 0"
      by (simp add: kpi_raw nan_record_def blank_record_def example_grid_def num_eval)
    have u: "UsePhase (KPIResult.status (computeKPIs [nan_record] example_grid Map.empty defaultThresholds ! 0)) = green"
      using computeKPIs_status [OF l, of example_grid Map.empty defaultThresholds, unfolded Let_def,
        THEN conjunct1, THEN conjunct1]
      by (simp add: s defaultThresholds_def num_eval)
    from q u show ?thesis
      by (simp add: nan_record_def blank_record_def)
  qed
  have e: "UsePhase_Share_Pct (computeKPIs [share_57_record] example_grid Map.empty thresholds_57 ! 0) = Num 57"
    using share_57_values(3,4) by (simp add: computeKPIs_def computeKPI_def)
  show ?thesis
    unfolding Let_def
    by (intro conjI a [THEN conjunct1] a [THEN conjunct2, THEN conjunct1] a [THEN conjunct2, THEN conjunct2]
        b [THEN conjunct1] b [THEN conjunct2, THEN conjunct1] b [THEN conjunct2, THEN conjunct2]
        c [THEN conjunct1] c [THEN conjunct2, THEN conjunct1] c [THEN conjunct2, THEN conjunct2]
        d e share_57_values(1,2,3) g [THEN conjunct1] g [THEN conjunct2, THEN conjunct1]
        g [THEN conjunct2, THEN conjunct2]) simp
qed

text \<open>
  Claim C10. \<open>computeKPIs\<close> returns one result per record, in the order of the records:
  the list has the length of the input, and its \<open>i\<close>-th result is computed from the \<open>i\<close>-th
  record and carries its Product and Category.
\<close>

theorem computeKPIs_length_order:
  "length (computeKPIs recs grid ly th) = length recs \<and>
   (\<forall>i < length recs.
      computeKPIs recs grid ly th ! i = computeKPI grid ly th (recs ! i) \<and>
      KPIResult.Product (computeKPIs recs grid ly th ! i) = MappedRecord.Product (recs ! i) \<and>
      KPIResult.Category (computeKPIs recs grid ly th ! i) = MappedRecord.Category (recs ! i))"
  by (simp add: computeKPIs_def computeKPI_def)

theorem computeKPIs_length_order_witness:
  "length (computeKPIs [example_record, negative_record] example_grid Map.empty defaultThresholds) = 2 \<and>
   KPIResult.Product (computeKPIs [example_record, negative_record] example_grid Map.empty defaultThresholds ! 1) = ''X'' \<and>
   KPIResult.Category (computeKPIs [example_record, negative_record] example_grid Map.empty defaultThresholds ! 1) = Cooking"
proof -
  note t = computeKPIs_length_order [of "[example_record, negative_record]" example_grid Map.empty defaultThresholds]
  have len: "length (computeKPIs [example_record, negative_record] example_grid Map.empty defaultThresholds) = 2"
    using t [THEN conjunct1] by simp
  have "(1::nat) < length [example_record, negative_record]"
    by simp
  with t [THEN conjunct2, THEN spec, of 1]
  have "KPIResult.Product (computeKPIs [example_record, negative_record] example_grid Map.empty defaultThresholds ! 1)
          = MappedRecord.Product ([example_record, negative_record] ! 1) \<and>
        KPIResult.Category (computeKPIs [example_record, negative_record] example_grid Map.empty defaultThresholds ! 1)
          = MappedRecord.Category ([example_record, negative_record] ! 1)"
    by blast
  then show ?thesis
    using len by (simp add: example_record_def negative_record_def)
qed


text \<open>
  Claim C8, as stated, fails: a transport value of -0.125 is rounded to the binary64
  number -0.12, where rounding half away from zero gives -0.13.
\<close>

theorem round_half_away_counterexample:
  "Transport (stageBreakdown (computeKPIs [negative_record] example_grid [Cooking \<mapsto> Num 10] defaultThresholds ! 0))
     = Num (fl (- 12 / 100)) \<and>
   round_half_away_2dp (- 1 / 8) = - 13 / 100 \<and>
   fl (- 12 / 100) \<noteq> fl (- 13 / 100) \<and> fl (- 12 / 100) \<noteq> - 13 / 100 \<and>
   Transport (stageBreakdown (computeKPIs [negative_record] example_grid [Cooking \<mapsto> Num 10] defaultThresholds ! 0))
     \<noteq> Num (fl (round_half_away_2dp (- 1 / 8))) \<and>
   Transport (stageBreakdown (computeKPIs [negative_record] example_grid [Cooking \<mapsto> Num 10] defaultThresholds ! 0))
     \<noteq> Num (round_half_away_2dp (- 1 / 8))"
proof -
  have t: "Transport (stageBreakdown (computeKPIs [negative_record] example_grid [Cooking \<mapsto> Num 10] defaultThresholds ! 0))
      = Num (fl (- 12 / 100))"
    unfolding tie_values(2) [symmetric]
    by (simp add: computeKPIs_def computeKPI_def kpi_transport_def negative_record_def example_record_def)
  have r: "round_half_away_2dp (- 1 / 8) = - 13 / 100"
    by (simp add: round_half_away_2dp_def)
  have f: "fl (- 12 / 100) \<noteq> fl (- 13 / 100)" "fl (- 12 / 100) \<noteq> - 13 / 100"
    unfolding fl_literals by simp_all
  show ?thesis
    unfolding t r using f by simp
qed


text \<open>
  Claim C8, amended. Every numeric output of \<open>computeKPIs\<close> is \<open>round\<close> of the
  unrounded value, and \<open>round n\<close> is \<open>Math.round(n * 100) / 100\<close> in binary64: the product
  is rounded to binary64, \<open>Math.round\<close> takes the nearest integer with a tie going toward
  plus infinity, and the quotient by 100 is rounded to binary64; NaN and the infinities are
  returned as they are. So 0.125 gives 0.13 and -0.125 gives -0.12; the binary64 number
  2.675, which is below the tie, gives 2.68, its product with 100 being rounded to 267.5;
  the binary64 number 0.145 gives 0.14.
\<close>

theorem computeKPIs_rounding:
  assumes "i < length recs"
  shows "(let r = recs ! i; k = computeKPIs recs grid ly th ! i
          in UsePhase_CO2e k = round_kpi (kpi_use grid ly r) \<and>
             Total_CO2e k = round_kpi (kpi_total grid ly r) \<and>
             UsePhase_Share_Pct k = round_kpi (kpi_share grid ly r) \<and>
             Transport (stageBreakdown k) = round_kpi (case Transport_kgCO2e r of None \<Rightarrow> Num 0 | Some v \<Rightarrow> v) \<and>
             StageBreakdown.Materials (stageBreakdown k) = round_kpi (case Materials_kgCO2e r of None \<Rightarrow> Num 0 | Some v \<Rightarrow> v) \<and>
             StageBreakdown.Production (stageBreakdown k) = round_kpi (case Production_kgCO2e r of None \<Rightarrow> Num 0 | Some v \<Rightarrow> v) \<and>
             Use (stageBreakdown k) = round_kpi (kpi_use grid ly r)) \<and>
         (\<forall>n. round_kpi n = jdiv (Math_round (jmul n (Num 100))) (Num 100)) \<and>
         round_kpi NaN = NaN \<and> round_kpi PInf = PInf \<and> round_kpi NInf = NInf \<and>
         (\<forall>x. \<bar>fl (x * 100)\<bar> < 2 ^ 53 \<longrightarrow>
            round_kpi (Num x) = Num (fl (of_int \<lfloor>fl (x * 100) + 1 / 2\<rfloor> / 100)) \<and>
            fl (x * 100) - 1 / 2 < of_int \<lfloor>fl (x * 100) + 1 / 2\<rfloor> \<and>
            of_int \<lfloor>fl (x * 100) + 1 / 2\<rfloor> \<le> fl (x * 100) + 1 / 2) \<and>
         round_kpi (Num (1 / 8)) = Num (fl (13 / 100)) \<and>
         round_kpi (Num (- 1 / 8)) = Num (fl (- 12 / 100)) \<and>
         round_kpi (Num (fl (2675 / 1000))) = Num (fl (268 / 100)) \<and>
         fl (2675 / 1000) < 2675 / 1000 \<and> fl (fl (2675 / 1000) * 100) = 535 / 2 \<and>
         round_kpi (Num (fl (145 / 1000))) = Num (fl (14 / 100)) \<and>
         fl (fl (145 / 1000) * 100) < 29 / 2"
proof -
  have k: "computeKPIs recs grid ly th ! i = computeKPI grid ly th (recs ! i)"
    using assms by (rule computeKPIs_nth)
  have outputs: "(let r = recs ! i; k = computeKPIs recs grid ly th ! i
          in UsePhase_CO2e k = round_kpi (kpi_use grid ly r) \<and>
             Total_CO2e k = round_kpi (kpi_total grid ly r) \<and>
             UsePhase_Share_Pct k = round_kpi (kpi_share grid ly r) \<and>
             Transport (stageBreakdown k) = round_kpi (case Transport_kgCO2e r of None \<Rightarrow> Num 0 | Some v \<Rightarrow> v) \<and>
             StageBreakdown.Materials (stageBreakdown k) = round_kpi (case Materials_kgCO2e r of None \<Rightarrow> Num 0 | Some v \<Rightarrow> v) \<and>
             StageBreakdown.Production (stageBreakdown k) = round_kpi (case Production_kgCO2e r of None \<Rightarrow> Num 0 | Some v \<Rightarrow> v) \<and>
             Use (stageBreakdown k) = round_kpi (kpi_use grid ly r))"
    unfolding Let_def k
    by (simp add: computeKPI_def kpi_transport_def kpi_materials_def kpi_production_def nullish_case)
  have d: "\<forall>n. round_kpi n = jdiv (Math_round (jmul n (Num 100))) (Num 100)"
    by (simp add: round_kpi_def)
  have s: "round_kpi NaN = NaN" "round_kpi PInf = PInf" "round_kpi NInf = NInf"
    by (simp_all add: round_kpi_def inf_of_def)
  have n: "\<forall>x. \<bar>fl (x * 100)\<bar> < 2 ^ 53 \<longrightarrow>
            round_kpi (Num x) = Num (fl (of_int \<lfloor>fl (x * 100) + 1 / 2\<rfloor> / 100)) \<and>
            fl (x * 100) - 1 / 2 < of_int \<lfloor>fl (x * 100) + 1 / 2\<rfloor> \<and>
            of_int \<lfloor>fl (x * 100) + 1 / 2\<rfloor> \<le> fl (x * 100) + 1 / 2"
  proof (intro allI impI conjI)
    fix x :: real
    assume "\<bar>fl (x * 100)\<bar> < 2 ^ 53"
    then show "round_kpi (Num x) = Num (fl (of_int \<lfloor>fl (x * 100) + 1 / 2\<rfloor> / 100))"
      by (rule round_kpi_Num)
    show "fl (x * 100) - 1 / 2 < of_int \<lfloor>fl (x * 100) + 1 / 2\<rfloor>"
      by linarith
    show "of_int \<lfloor>fl (x * 100) + 1 / 2\<rfloor> \<le> fl (x * 100) + 1 / 2"
      by linarith
  qed
  have e: "fl (2675 / 1000) < 2675 / 1000" "fl (fl (2675 / 1000) * 100) = 535 / 2"
    "fl (fl (145 / 1000) * 100) < 29 / 2"
    by (simp_all add: fl_eval)
  show ?thesis
    by (intro conjI outputs d s n tie_values e)
qed

theorem computeKPIs_rounding_witness:
  "Transport (stageBreakdown (computeKPIs [tie_2675_record] example_grid Map.empty defaultThresholds ! 0))
     = Num (fl (268 / 100)) \<and>
   \<bar>fl (1 / 8 * 100)\<bar> < 2 ^ 53 \<and> \<lfloor>fl (1 / 8 * 100) + 1 / 2\<rfloor> = 13 \<and>
   round_kpi (Num (1 / 8)) = Num (fl (13 / 100))"
proof -
  have p: "0 < length [tie_2675_record]"
    by simp
  note t = computeKPIs_rounding [OF p, of example_grid Map.empty defaultThresholds, unfolded Let_def]
  from t [THEN conjunct1]
  have "Transport (stageBreakdown (computeKPIs [tie_2675_record] example_grid Map.empty defaultThresholds ! 0))
      = round_kpi (Num (fl (2675 / 1000)))"
    by (simp add: tie_2675_record_def blank_record_def)
  then have a: "Transport (stageBreakdown (computeKPIs [tie_2675_record] example_grid Map.empty defaultThresholds ! 0))
      = Num (fl (268 / 100))"
    unfolding tie_values .
  have f: "fl (1 / 8 * 100) = 25 / 2"
    by (simp add: fl_eval)
  have b: "\<bar>fl (1 / 8 * 100)\<bar> < 2 ^ 53" "\<lfloor>fl (1 / 8 * 100) + 1 / 2\<rfloor> = 13"
    unfolding f by simp_all
  from t [THEN conjunct2, THEN conjunct2, THEN conjunct2, THEN conjunct2, THEN conjunct2, THEN conjunct1,
      THEN spec, of "1 / 8"] b
  have c: "round_kpi (Num (1 / 8)) = Num (fl (13 / 100))"
    by simp
  show ?thesis
    by (intro conjI a b c)
qed

section \<open>Properties of the validator\<close>

lemma check_field_eq:
  "check_field row r f =
     (if is_missing (snd f r) then [issue row (fst f) sev_error ''Missing required value'']
      else if is_negative (snd f r) then [issue row (fst f) sev_error ''Negative value'']
      else if is_large (snd f r) then [issue row (fst f) sev_warning ''Suspiciously large'']
      else [])"
proof (cases "snd f r")
  case None
  then show ?thesis by (simp add: check_field_def is_missing_def issue_def)
next
  case (Some v)
  then show ?thesis
    by (cases v) (auto simp: check_field_def is_missing_def is_negative_def is_large_def issue_def jgt_def)
qed

lemma ex_less_Suc_shift: "(\<exists>i<Suc n. P i) \<longleftrightarrow> P 0 \<or> (\<exists>i<n. P (Suc i))"
  by (auto simp: less_Suc_eq_0_disj)

lemma in_validate_loop:
  "iss \<in> set (validate_loop k rs) \<longleftrightarrow>
     (\<exists>i<length rs. \<exists>f\<in>set req. iss \<in> set (check_field (k + i + 1) (rs ! i) f))"
proof (induction rs arbitrary: k)
  case Nil
  then show ?case by simp
next
  case (Cons r rs)
  show ?case
    by (simp add: Cons.IH ex_less_Suc_shift)
qed

lemma in_issues:
  "iss \<in> set (issues (validate rs)) \<longleftrightarrow>
     (\<exists>i<length rs. \<exists>f\<in>set req. iss \<in> set (check_field (i + 1) (rs ! i) f))"
  using in_validate_loop [of iss 0 rs] by (simp add: validate_def Let_def)

lemma req_names_distinct: "distinct (map fst req)"
  by (simp add: req_def)

lemma req_distinct:
  assumes "f \<in> set req" "g \<in> set req" "fst f = fst g"
  shows "f = g"
proof -
  obtain a b where f: "f = (a, b)" by (cases f)
  obtain c d where g: "g = (c, d)" by (cases g)
  from assms(3) f g have ac: "c = a" by simp
  have "(a, b) \<in> set req" using assms(1) f by simp
  moreover have "(a, d) \<in> set req" using assms(2) g ac by simp
  ultimately have "b = d"
    using eq_key_imp_eq_value [OF req_names_distinct] by blast
  with f g ac show ?thesis by simp
qed

lemma issue_inj: "issue row f sev msg = issue row' f' sev' msg' \<longleftrightarrow> row = row' \<and> f = f' \<and> sev = sev' \<and> msg = msg'"
  by (auto simp: issue_def)

lemma issue_in_check_field:
  "issue row' n sev msg \<in> set (check_field row r f) \<longleftrightarrow>
     row' = row \<and> n = fst f \<and>
     (if is_missing (snd f r) then sev = sev_error \<and> msg = ''Missing required value''
      else if is_negative (snd f r) then sev = sev_error \<and> msg = ''Negative value''
      else is_large (snd f r) \<and> sev = sev_warning \<and> msg = ''Suspiciously large'')"
  by (auto simp: check_field_eq issue_inj)

lemma issue_in_issues:
  assumes "i < length rs" "f \<in> set req"
  shows "issue (i + 1) (fst f) sev msg \<in> set (issues (validate rs)) \<longleftrightarrow>
     (if is_missing (snd f (rs ! i)) then sev = sev_error \<and> msg = ''Missing required value''
      else if is_negative (snd f (rs ! i)) then sev = sev_error \<and> msg = ''Negative value''
      else is_large (snd f (rs ! i)) \<and> sev = sev_warning \<and> msg = ''Suspiciously large'')"
    (is "?L \<longleftrightarrow> ?R")
proof
  assume ?L
  then obtain j g where j: "j < length rs" "g \<in> set req"
      "issue (i + 1) (fst f) sev msg \<in> set (check_field (j + 1) (rs ! j) g)"
    unfolding in_issues by blast
  from j(3) have ij: "i = j" and fg: "fst f = fst g"
    unfolding issue_in_check_field by simp_all
  from req_distinct [OF assms(2) j(2) fg] have "g = f" by simp
  with j(3) ij have "issue (i + 1) (fst f) sev msg \<in> set (check_field (i + 1) (rs ! i) f)"
    by simp
  then show ?R unfolding issue_in_check_field by simp
next
  assume ?R
  then have "issue (i + 1) (fst f) sev msg \<in> set (check_field (i + 1) (rs ! i) f)"
    unfolding issue_in_check_field by simp
  with assms show ?L unfolding in_issues by blast
qed

lemma issues_shape:
  assumes "iss \<in> set (issues (validate rs))"
  shows "\<exists>i<length rs. \<exists>f\<in>set req. rowIndex iss = i + 1 \<and> field iss = fst f \<and>
           ((severity iss = sev_error \<and> message iss = ''Missing required value'') \<or>
            (severity iss = sev_error \<and> message iss = ''Negative value'') \<or>
            (severity iss = sev_warning \<and> message iss = ''Suspiciously large''))"
proof -
  from assms obtain i f where *: "i < length rs" "f \<in> set req" "iss \<in> set (check_field (i + 1) (rs ! i) f)"
    unfolding in_issues by blast
  from *(3) have "rowIndex iss = i + 1 \<and> field iss = fst f \<and>
           ((severity iss = sev_error \<and> message iss = ''Missing required value'') \<or>
            (severity iss = sev_error \<and> message iss = ''Negative value'') \<or>
            (severity iss = sev_warning \<and> message iss = ''Suspiciously large''))"
    by (auto simp: check_field_eq issue_def split: if_splits)
  with *(1,2) show ?thesis by blast
qed

lemma issues_validate: "issues (validate rs) = validate_loop 0 rs"
  by (simp add: validate_def Let_def)

lemma status_validate:
  "DataQualitySummary.status (validate rs) =
     (if list_ex (\<lambda>i. severity i = sev_error) (validate_loop 0 rs) then red
      else if validate_loop 0 rs \<noteq> [] then amber else green)"
  by (simp add: validate_def Let_def)

lemma status_of_issues:
  "(if list_ex (\<lambda>i. severity i = sev_error) xs then red else if xs \<noteq> [] then amber else green) =
     (if \<exists>iss\<in>set xs. severity iss = sev_error then red
      else if \<exists>iss\<in>set xs. severity iss = sev_warning then amber else green)"
proof (cases "\<exists>iss\<in>set xs. severity iss = sev_error")
  case True
  then show ?thesis by (simp add: list_ex_iff)
next
  case False
  then have w: "\<forall>iss\<in>set xs. severity iss = sev_warning"
    by (metis Severity.exhaust)
  show ?thesis
  proof (cases xs)
    case Nil
    then show ?thesis by simp
  next
    case (Cons x ys)
    with w have "severity x = sev_warning" by simp
    with Cons False show ?thesis by (auto simp: list_ex_iff)
  qed
qed

lemma validate_status:
  "DataQualitySummary.status (validate rs) =
     (if \<exists>iss\<in>set (issues (validate rs)). severity iss = sev_error then red
      else if \<exists>iss\<in>set (issues (validate rs)). severity iss = sev_warning then amber else green)"
  unfolding issues_validate status_validate by (rule status_of_issues)

lemma validate_example:
  "validate [bad_record] =
     \<lparr> DataQualitySummary.status = red,
       issues = [issue 1 ''Transport_kgCO2e'' sev_error ''Missing required value'',
                 issue 1 ''Materials_kgCO2e'' sev_error ''Negative value'',
                 issue 1 ''Use_kWh_per_year'' sev_warning ''Suspiciously large''] \<rparr>"
  by (simp add: validate_def Let_def req_def check_field_def bad_record_def issue_def jgt_def)


lemma severity_cases:
  "\<not> (is_missing v \<and> is_negative v)" "\<not> (is_missing v \<and> is_large v)" "\<not> (is_negative v \<and> is_large v)"
  by (auto simp: is_missing_def is_negative_def is_large_def)

lemma field_issues:
  assumes "i < length rs" "f \<in> set req"
  shows "(issue (i + 1) (fst f) sev_error ''Missing required value'' \<in> set (issues (validate rs))
            \<longleftrightarrow> is_missing (snd f (rs ! i))) \<and>
         (issue (i + 1) (fst f) sev_error ''Negative value'' \<in> set (issues (validate rs))
            \<longleftrightarrow> is_negative (snd f (rs ! i))) \<and>
         (issue (i + 1) (fst f) sev_warning ''Suspiciously large'' \<in> set (issues (validate rs))
            \<longleftrightarrow> is_large (snd f (rs ! i)))"
  unfolding issue_in_issues [OF assms]
  using severity_cases [of "snd f (rs ! i)"] by simp

lemma message_texts:
  "toLowerCase ''Missing required value'' = ''missing required value''"
  "toLowerCase ''Negative value'' = ''negative value''"
  "toLowerCase ''Suspiciously large'' = ''suspiciously large''"
  by (simp_all add: toLowerCase_def lower_char_def)

text \<open>
  Claim C6. For a list of records, \<open>validate\<close> reports for the record at position \<open>i\<close> (row
  \<open>i + 1\<close>) and each of the four required fields: the error \<open>Missing required value\<close>
  exactly when the value is null or NaN, the error \<open>Negative value\<close> exactly when it is below
  0, the warning \<open>Suspiciously large\<close> exactly when it is above 1e7, and nothing else. The
  status is red iff an issue is an error, amber iff none is an error and one is a warning,
  green otherwise. The record with transport null, materials -5, production 0 and use 1e8
  gives an error for transport, an error for materials, a warning for use, and status red.
  The messages of the program begin with a capital letter; in lower case they are the three
  texts of the claim.
\<close>

theorem validate_reports:
  "(\<forall>i<length recs. \<forall>f\<in>set req.
      (issue (i + 1) (fst f) sev_error ''Missing required value'' \<in> set (issues (validate recs))
         \<longleftrightarrow> is_missing (snd f (recs ! i))) \<and>
      (issue (i + 1) (fst f) sev_error ''Negative value'' \<in> set (issues (validate recs))
         \<longleftrightarrow> is_negative (snd f (recs ! i))) \<and>
      (issue (i + 1) (fst f) sev_warning ''Suspiciously large'' \<in> set (issues (validate recs))
         \<longleftrightarrow> is_large (snd f (recs ! i)))) \<and>
   (\<forall>iss\<in>set (issues (validate recs)). \<exists>i<length recs. \<exists>f\<in>set req.
      rowIndex iss = i + 1 \<and> field iss = fst f \<and>
      ((severity iss = sev_error \<and> message iss = ''Missing required value'') \<or>
       (severity iss = sev_error \<and> message iss = ''Negative value'') \<or>
       (severity iss = sev_warning \<and> message iss = ''Suspiciously large''))) \<and>
   req = [(''Transport_kgCO2e'', Transport_kgCO2e), (''Materials_kgCO2e'', Materials_kgCO2e),
          (''Production_kgCO2e'', Production_kgCO2e), (''Use_kWh_per_year'', Use_kWh_per_year)] \<and>
   (DataQualitySummary.status (validate recs) = red \<longleftrightarrow>
      (\<exists>iss\<in>set (issues (validate recs)). severity iss = sev_error)) \<and>
   (DataQualitySummary.status (validate recs) = amber \<longleftrightarrow>
      \<not> (\<exists>iss\<in>set (issues (validate recs)). severity iss = sev_error) \<and>
      (\<exists>iss\<in>set (issues (validate recs)). severity iss = sev_warning)) \<and>
   (DataQualitySummary.status (validate recs) = green \<longleftrightarrow>
      \<not> (\<exists>iss\<in>set (issues (validate recs)). severity iss = sev_error) \<and>
      \<not> (\<exists>iss\<in>set (issues (validate recs)). severity iss = sev_warning)) \<and>
   validate [bad_record] =
     \<lparr> DataQualitySummary.status = red,
       issues = [issue 1 ''Transport_kgCO2e'' sev_error ''Missing required value'',
                 issue 1 ''Materials_kgCO2e'' sev_error ''Negative value'',
                 issue 1 ''Use_kWh_per_year'' sev_warning ''Suspiciously large''] \<rparr> \<and>
   map toLowerCase [''Missing required value'', ''Negative value'', ''Suspiciously large''] =
     [''missing required value'', ''negative value'', ''suspiciously large'']"
proof -
  have a: "\<forall>i<length recs. \<forall>f\<in>set req.
      (issue (i + 1) (fst f) sev_error ''Missing required value'' \<in> set (issues (validate recs))
         \<longleftrightarrow> is_missing (snd f (recs ! i))) \<and>
      (issue (i + 1) (fst f) sev_error ''Negative value'' \<in> set (issues (validate recs))
         \<longleftrightarrow> is_negative (snd f (recs ! i))) \<and>
      (issue (i + 1) (fst f) sev_warning ''Suspiciously large'' \<in> set (issues (validate recs))
         \<longleftrightarrow> is_large (snd f (recs ! i)))"
    using field_issues by blast
  have b: "\<forall>iss\<in>set (issues (validate recs)). \<exists>i<length recs. \<exists>f\<in>set req.
      rowIndex iss = i + 1 \<and> field iss = fst f \<and>
      ((severity iss = sev_error \<and> message iss = ''Missing required value'') \<or>
       (severity iss = sev_error \<and> message iss = ''Negative value'') \<or>
       (severity iss = sev_warning \<and> message iss = ''Suspiciously large''))"
    using issues_shape by blast
  have c: "(DataQualitySummary.status (validate recs) = red \<longleftrightarrow>
      (\<exists>iss\<in>set (issues (validate recs)). severity iss = sev_error)) \<and>
   (DataQualitySummary.status (validate recs) = amber \<longleftrightarrow>
      \<not> (\<exists>iss\<in>set (issues (validate recs)). severity iss = sev_error) \<and>
      (\<exists>iss\<in>set (issues (validate recs)). severity iss = sev_warning)) \<and>
   (DataQualitySummary.status (validate recs) = green \<longleftrightarrow>
      \<not> (\<exists>iss\<in>set (issues (validate recs)). severity iss = sev_error) \<and>
      \<not> (\<exists>iss\<in>set (issues (validate recs)). severity iss = sev_warning))"
    unfolding validate_status [of recs] by simp
  have d: "map toLowerCase [''Missing required value'', ''Negative value'', ''Suspiciously large''] =
     [''missing required value'', ''negative value'', ''suspiciously large'']"
    by (simp add: message_texts)
  show ?thesis
    using a b c d validate_example by (simp add: req_def)
qed

theorem validate_reports_witness:
  "issue 1 ''Materials_kgCO2e'' sev_error ''Negative value'' \<in> set (issues (validate [bad_record])) \<and>
   issue 1 ''Transport_kgCO2e'' sev_error ''Negative value'' \<notin> set (issues (validate [bad_record]))"
proof -
  note t = validate_reports [of "[bad_record]", THEN conjunct1, THEN spec, of 0, simplified]
  have m: "(''Materials_kgCO2e'', Materials_kgCO2e) \<in> set req" "(''Transport_kgCO2e'', Transport_kgCO2e) \<in> set req"
    by (simp_all add: req_def)
  have "is_negative (Materials_kgCO2e bad_record)" "\<not> is_negative (Transport_kgCO2e bad_record)"
    by (simp_all add: is_negative_def bad_record_def)
  then show ?thesis
    using t [THEN bspec, OF m(1)] t [THEN bspec, OF m(2)] by simp
qed

section \<open>Properties of the header detection\<close>

lemma startsWith_iff: "startsWith s k \<longleftrightarrow> (\<exists>q. s = k @ q)"
  by (induction s k rule: startsWith.induct) auto

lemma includes_js_iff: "includes_js s k \<longleftrightarrow> (\<exists>p q. s = p @ k @ q)"
proof (induction s)
  case Nil
  then show ?case by simp
next
  case (Cons c s)
  show ?case
  proof
    assume "includes_js (c # s) k"
    then consider "startsWith (c # s) k" | "includes_js s k" by auto
    then show "\<exists>p q. c # s = p @ k @ q"
    proof cases
      case 1
      then obtain q where "c # s = k @ q" unfolding startsWith_iff by blast
      then have "c # s = [] @ k @ q" by simp
      then show ?thesis by blast
    next
      case 2
      then obtain p q where "s = p @ k @ q" using Cons.IH by blast
      then have "c # s = (c # p) @ k @ q" by simp
      then show ?thesis by blast
    qed
  next
    assume "\<exists>p q. c # s = p @ k @ q"
    then obtain p q where pq: "c # s = p @ k @ q" by blast
    show "includes_js (c # s) k"
    proof (cases p)
      case Nil
      with pq have "startsWith (c # s) k" unfolding startsWith_iff by auto
      then show ?thesis by simp
    next
      case (Cons a p')
      with pq have "s = p' @ k @ q" by simp
      then have "includes_js s k" using Cons.IH by blast
      then show ?thesis by simp
    qed
  qed
qed

lemma detect_loop_Some:
  assumes "detect_loop nts i rs (bi, Some b) = (k, s)"
  shows "\<exists>sb. s = Some sb \<and> b \<le> sb \<and> (\<forall>j<length rs. row_score nts (rs ! j) \<le> sb) \<and>
           ((k = bi \<and> sb = b) \<or>
            (\<exists>j<length rs. k = i + j \<and> sb = row_score nts (rs ! j) \<and> b < sb \<and>
                 (\<forall>j'<j. row_score nts (rs ! j') < sb)))"
  using assms
proof (induction rs arbitrary: i bi b)
  case Nil
  then show ?case by simp
next
  case (Cons r rs)
  let ?sc = "row_score nts r"
  show ?case
  proof (cases "?sc > b")
    case True
    with Cons.prems have "detect_loop nts (i + 1) rs (i, Some ?sc) = (k, s)"
      by (simp add: Let_def)
    from Cons.IH [OF this] obtain sb where sb: "s = Some sb" "?sc \<le> sb"
      "\<forall>j<length rs. row_score nts (rs ! j) \<le> sb"
      "(k = i \<and> sb = ?sc) \<or>
            (\<exists>j<length rs. k = i + 1 + j \<and> sb = row_score nts (rs ! j) \<and> ?sc < sb \<and>
                 (\<forall>j'<j. row_score nts (rs ! j') < sb))"
      by blast
    have all: "\<forall>j<length (r # rs). row_score nts ((r # rs) ! j) \<le> sb"
      using sb(2,3) by (simp add: All_less_Suc2)
    from sb(4) have "\<exists>j<length (r # rs). k = i + j \<and> sb = row_score nts ((r # rs) ! j) \<and> b < sb \<and>
                 (\<forall>j'<j. row_score nts ((r # rs) ! j') < sb)"
    proof
      assume "k = i \<and> sb = ?sc"
      with True have "0 < length (r # rs) \<and> k = i + 0 \<and> sb = row_score nts ((r # rs) ! 0) \<and> b < sb \<and>
                 (\<forall>j'<0. row_score nts ((r # rs) ! j') < sb)"
        by simp
      then show ?thesis by blast
    next
      assume "\<exists>j<length rs. k = i + 1 + j \<and> sb = row_score nts (rs ! j) \<and> ?sc < sb \<and>
                 (\<forall>j'<j. row_score nts (rs ! j') < sb)"
      then obtain j where j: "j < length rs" "k = i + 1 + j" "sb = row_score nts (rs ! j)" "?sc < sb"
          "\<forall>j'<j. row_score nts (rs ! j') < sb"
        by blast
      with True have "Suc j < length (r # rs) \<and> k = i + Suc j \<and> sb = row_score nts ((r # rs) ! Suc j) \<and> b < sb \<and>
                 (\<forall>j'<Suc j. row_score nts ((r # rs) ! j') < sb)"
        by (simp add: All_less_Suc2)
      then show ?thesis by blast
    qed
    with sb(1,2) True all show ?thesis
      by (intro exI [of _ sb]) (simp del: length_Cons)
  next
    case False
    with Cons.prems have "detect_loop nts (i + 1) rs (bi, Some b) = (k, s)"
      by (simp add: Let_def)
    from Cons.IH [OF this] obtain sb where sb: "s = Some sb" "b \<le> sb"
      "\<forall>j<length rs. row_score nts (rs ! j) \<le> sb"
      "(k = bi \<and> sb = b) \<or>
            (\<exists>j<length rs. k = i + 1 + j \<and> sb = row_score nts (rs ! j) \<and> b < sb \<and>
                 (\<forall>j'<j. row_score nts (rs ! j') < sb))"
      by blast
    have all: "\<forall>j<length (r # rs). row_score nts ((r # rs) ! j) \<le> sb"
      using sb(2,3) False by (simp add: All_less_Suc2)
    from sb(4) have "(k = bi \<and> sb = b) \<or> (\<exists>j<length (r # rs). k = i + j \<and> sb = row_score nts ((r # rs) ! j) \<and> b < sb \<and>
                 (\<forall>j'<j. row_score nts ((r # rs) ! j') < sb))"
    proof
      assume "k = bi \<and> sb = b"
      then show ?thesis by blast
    next
      assume "\<exists>j<length rs. k = i + 1 + j \<and> sb = row_score nts (rs ! j) \<and> b < sb \<and>
                 (\<forall>j'<j. row_score nts (rs ! j') < sb)"
      then obtain j where j: "j < length rs" "k = i + 1 + j" "sb = row_score nts (rs ! j)" "b < sb"
          "\<forall>j'<j. row_score nts (rs ! j') < sb"
        by blast
      with False have "Suc j < length (r # rs) \<and> k = i + Suc j \<and> sb = row_score nts ((r # rs) ! Suc j) \<and> b < sb \<and>
                 (\<forall>j'<Suc j. row_score nts ((r # rs) ! j') < sb)"
        by (simp add: All_less_Suc2)
      then show ?thesis by blast
    qed
    with sb(1,2) all show ?thesis
      by (intro exI [of _ sb]) (simp del: length_Cons)
  qed
qed


lemma autoDetect_nonempty:
  fixes nts :: "jsnum \<Rightarrow> string" and rows :: "jsval list list"
  assumes "rows \<noteq> []"
  defines "n \<equiv> min 20 (length rows)"
  defines "k \<equiv> autoDetectHeaderRow nts rows"
  shows "k < n \<and> (\<forall>j<n. row_score nts (rows ! j) \<le> row_score nts (rows ! k)) \<and>
         (\<forall>j<k. row_score nts (rows ! j) < row_score nts (rows ! k))"
proof -
  let ?T = "take n rows"
  have n: "0 < n" "length ?T = n" "n \<le> length rows"
    using assms(1) by (simp_all add: n_def)
  then obtain r rs where T: "?T = r # rs"
    by (cases ?T) auto
  have nth: "\<And>j. j < n \<Longrightarrow> (r # rs) ! j = rows ! j"
    using T [symmetric] by simp
  obtain k' s where ks: "detect_loop nts 1 rs (0, Some (row_score nts r)) = (k', s)"
    by (cases "detect_loop nts 1 rs (0, Some (row_score nts r))")
  have k: "k = k'"
    using ks T by (simp add: k_def autoDetectHeaderRow_def n_def Let_def)
  from detect_loop_Some [OF ks] obtain sb where sb: "row_score nts r \<le> sb"
      "\<forall>j<length rs. row_score nts (rs ! j) \<le> sb"
      "(k' = 0 \<and> sb = row_score nts r) \<or>
       (\<exists>j<length rs. k' = 1 + j \<and> sb = row_score nts (rs ! j) \<and> row_score nts r < sb \<and>
            (\<forall>j'<j. row_score nts (rs ! j') < sb))"
    by blast
  have len: "length rs = n - 1" "Suc (length rs) = n"
    using n(2) T by simp_all
  have "\<forall>j<Suc (length rs). row_score nts ((r # rs) ! j) \<le> sb"
    using sb(1,2) by (simp add: All_less_Suc2)
  then have all: "\<forall>j<n. row_score nts ((r # rs) ! j) \<le> sb"
    unfolding len(2) .
  from sb(3) have "k' < n \<and> sb = row_score nts ((r # rs) ! k') \<and> (\<forall>j<k'. row_score nts ((r # rs) ! j) < sb)"
  proof
    assume "k' = 0 \<and> sb = row_score nts r"
    then show ?thesis using n(1) by simp
  next
    assume "\<exists>j<length rs. k' = 1 + j \<and> sb = row_score nts (rs ! j) \<and> row_score nts r < sb \<and>
            (\<forall>j'<j. row_score nts (rs ! j') < sb)"
    then obtain j where j: "j < length rs" "k' = Suc j" "sb = row_score nts (rs ! j)"
        "row_score nts r < sb" "\<forall>j'<j. row_score nts (rs ! j') < sb"
      by auto
    have "\<forall>j'<Suc j. row_score nts ((r # rs) ! j') < sb"
      using j(4,5) by (simp add: All_less_Suc2)
    then show ?thesis
      using j(1,2,3) len(2) by auto
  qed
  then have "k' < n" "sb = row_score nts (rows ! k')" "\<forall>j<k'. row_score nts (rows ! j) < sb"
    using nth by auto
  moreover from all nth have "\<forall>j<n. row_score nts (rows ! j) \<le> sb"
    by simp
  ultimately show ?thesis
    unfolding k by simp
qed

lemma row_score_fold:
  "row_score nts r =
     foldl (\<lambda>acc cell.
        fl (fl (acc + (if \<exists>k\<in>set keywordHints. \<exists>p q.
                            toLowerCase (if is_nullish cell then [] else String_js nts cell) = p @ k @ q
                       then 1 else 0))
            + (if toLowerCase (if is_nullish cell then [] else String_js nts cell) \<noteq> [] then fl (1 / 5) else 0)))
       0 r"
  by (simp add: row_score_def cell_hits_def cell_len_def cell_text_def list_ex_iff includes_js_iff)

lemma lower_texts:
  "toLowerCase ''x'' = ''x''" "toLowerCase ''y'' = ''y''" "toLowerCase ''Product'' = ''product''"
  "toLowerCase ''Transport_kgCO2e'' = ''transport_kgco2e''"
  "toLowerCase ''Use_kWh_per_year'' = ''use_kwh_per_year''"
  "toLowerCase ''a'' = ''a''" "toLowerCase ''b'' = ''b''" "toLowerCase ''c'' = ''c''"
  "toLowerCase ''product'' = ''product''"
  "toLowerCase ''KWH'' = ''kwh''" "toLowerCase ''PRODUCT'' = ''product''"
  by (simp_all add: toLowerCase_def lower_char_def)

lemma example_hits:
  "cell_hits ''x'' = 0" "cell_hits ''y'' = 0" "cell_hits ''product'' = 1"
  "cell_hits ''transport_kgco2e'' = 1" "cell_hits ''use_kwh_per_year'' = 1"
  "cell_hits ''a'' = 0" "cell_hits ''b'' = 0" "cell_hits ''c'' = 0"
  "cell_hits ''kwh'' = 1"
  "cell_hits ''KWH'' = 0" "cell_hits ''PRODUCT'' = 0"
  by (simp_all add: cell_hits_def keywordHints_def)

lemma fl_1_5: "fl (1 / 5) = 3602879701896397 / 2 ^ 54"
  by (simp add: fl_eval)

lemma example_scores:
  "row_score nts [JString ''x'', JString ''y''] = 3602879701896397 / 2 ^ 53"
  "row_score nts [JString ''Product'', JString ''Transport_kgCO2e'', JString ''Use_kWh_per_year'']
     = 4053239664633447 / 2 ^ 50"
  by (simp_all add: row_score_def cell_text_def lower_texts example_hits cell_len_def fl_eval)

lemma tie_scores:
  "row_score nts [JString ''product'', JString ''a'', JString ''b'', JString ''c''] = 2026619832316723 / 2 ^ 50"
  "row_score nts [JString ''a'', JString ''b'', JString ''c'', JString ''product''] = 8106479329266893 / 2 ^ 52"
  by (simp_all add: row_score_def cell_text_def lower_texts example_hits cell_len_def fl_eval)

lemma capital_scores:
  "row_score nts [JString ''a'', JString ''b'', JString ''c''] = 1351079888211149 / 2 ^ 51"
  "row_score nts [JString ''KWH'', JString ''PRODUCT''] = 1351079888211149 / 2 ^ 49"
  by (simp_all add: row_score_def cell_text_def lower_texts example_hits cell_len_def fl_eval)

lemma autoDetect_example: "autoDetectHeaderRow nts header_rows_example = 1"
  by (simp add: autoDetectHeaderRow_def header_rows_example_def example_scores Let_def)

lemma autoDetect_tie: "autoDetectHeaderRow nts tie_rows = 1"
  by (simp add: autoDetectHeaderRow_def tie_rows_def tie_scores Let_def)

lemma autoDetect_capital: "autoDetectHeaderRow nts capital_rows = 1"
  by (simp add: autoDetectHeaderRow_def capital_rows_def capital_scores Let_def)

lemma spec_tie_scores:
  "spec_row_score [''product'', ''a'', ''b'', ''c''] = 9 / 5"
  "spec_row_score [''a'', ''b'', ''c'', ''product''] = 9 / 5"
  using example_hits(3,6,7,8)
  by (simp_all add: spec_row_score_def cell_hits_def list_ex_iff includes_js_iff)


text \<open>
  Claim C7, as stated, fails. The two rows \<open>[product, a, b, c]\<close> and \<open>[a, b, c, product]\<close>
  have the same cells, and the sum of the claim is 1.8 for both, so that the claim's tie
  goes to index 0. The program adds in binary64 from the left, gets 1.7999999999999998 for
  the first row and 1.8 for the second, and returns 1.
\<close>

theorem autoDetectHeaderRow_tie_counterexample:
  "autoDetectHeaderRow (\<lambda>n. []) tie_rows = 1 \<and>
   spec_row_score (map (cell_text (\<lambda>n. [])) (tie_rows ! 0)) = 9 / 5 \<and>
   spec_row_score (map (cell_text (\<lambda>n. [])) (tie_rows ! 1)) = 9 / 5 \<and>
   row_score (\<lambda>n. []) (tie_rows ! 0) = 2026619832316723 / 2 ^ 50 \<and>
   row_score (\<lambda>n. []) (tie_rows ! 1) = 8106479329266893 / 2 ^ 52 \<and>
   row_score (\<lambda>n. []) (tie_rows ! 0) < row_score (\<lambda>n. []) (tie_rows ! 1)"
proof -
  have t: "map (cell_text (\<lambda>n. [])) (tie_rows ! 0) = [''product'', ''a'', ''b'', ''c'']"
    "map (cell_text (\<lambda>n. [])) (tie_rows ! 1) = [''a'', ''b'', ''c'', ''product'']"
    by (simp_all add: tie_rows_def cell_text_def lower_texts)
  have r: "tie_rows ! 0 = [JString ''product'', JString ''a'', JString ''b'', JString ''c'']"
    "tie_rows ! 1 = [JString ''a'', JString ''b'', JString ''c'', JString ''product'']"
    by (simp_all add: tie_rows_def)
  have s: "spec_row_score (map (cell_text (\<lambda>n. [])) (tie_rows ! 0)) = 9 / 5"
    "spec_row_score (map (cell_text (\<lambda>n. [])) (tie_rows ! 1)) = 9 / 5"
    unfolding t by (rule spec_tie_scores)+
  have q: "row_score (\<lambda>n. []) (tie_rows ! 0) = 2026619832316723 / 2 ^ 50"
    "row_score (\<lambda>n. []) (tie_rows ! 1) = 8106479329266893 / 2 ^ 52"
    unfolding r by (rule tie_scores)+
  have l: "row_score (\<lambda>n. []) (tie_rows ! 0) < row_score (\<lambda>n. []) (tie_rows ! 1)"
    unfolding q by simp
  show ?thesis
    by (intro conjI autoDetect_tie s q l)
qed


text \<open>
  Claim C7, amended. Header detection looks at the first \<open>min 20 (length rows)\<close> rows. The
  score of a row is accumulated over its cells from the left, starting from 0, in binary64:
  to the accumulator is added 1 if the lower-cased text of the cell contains one of the six
  keywords as a substring (0 otherwise), the sum is rounded, then the binary64 number 0.2
  is added if the text is not empty (0 otherwise), and the sum is rounded. The result is
  the index of a row of maximal accumulated score among those rows, and every row before
  it has a strictly smaller accumulated score: a tie between accumulated scores goes to the
  lowest index. For no rows the result is 0. On the rows
  \<open>[[x, y], [Product, Transport_kgCO2e, Use_kWh_per_year]]\<close> the result is 1; on
  \<open>[[a, b, c], [KWH, PRODUCT]]\<close> it is 1, the keywords being found in the lower-cased text;
  on \<open>[[product, a, b, c], [a, b, c, product]]\<close> it is 1.
\<close>

theorem autoDetectHeaderRow_max:
  "(rows \<noteq> [] \<longrightarrow>
      autoDetectHeaderRow nts rows < min 20 (length rows) \<and>
      (\<forall>j < min 20 (length rows). row_score nts (rows ! j) \<le> row_score nts (rows ! autoDetectHeaderRow nts rows)) \<and>
      (\<forall>j < autoDetectHeaderRow nts rows. row_score nts (rows ! j) < row_score nts (rows ! autoDetectHeaderRow nts rows))) \<and>
   autoDetectHeaderRow nts [] = 0 \<and>
   row_score nts r =
     foldl (\<lambda>acc cell.
        fl (fl (acc + (if \<exists>k\<in>set keywordHints. \<exists>p q.
                            toLowerCase (if is_nullish cell then [] else String_js nts cell) = p @ k @ q
                       then 1 else 0))
            + (if toLowerCase (if is_nullish cell then [] else String_js nts cell) \<noteq> [] then fl (1 / 5) else 0)))
       0 r \<and>
   keywordHints = [''transport'', ''materials'', ''production'', ''use'', ''kwh'', ''product''] \<and>
   fl (1 / 5) = 3602879701896397 / 2 ^ 54 \<and>
   (\<forall>x. 1 / 2 ^ 1022 \<le> \<bar>x\<bar> \<longrightarrow> \<bar>fl x - x\<bar> \<le> \<bar>x\<bar> / 2 ^ 53) \<and>
   autoDetectHeaderRow nts header_rows_example = 1 \<and>
   autoDetectHeaderRow nts capital_rows = 1 \<and>
   autoDetectHeaderRow nts tie_rows = 1"
proof -
  have a: "rows \<noteq> [] \<longrightarrow>
      autoDetectHeaderRow nts rows < min 20 (length rows) \<and>
      (\<forall>j < min 20 (length rows). row_score nts (rows ! j) \<le> row_score nts (rows ! autoDetectHeaderRow nts rows)) \<and>
      (\<forall>j < autoDetectHeaderRow nts rows. row_score nts (rows ! j) < row_score nts (rows ! autoDetectHeaderRow nts rows))"
    using autoDetect_nonempty [of rows nts] by blast
  have b: "autoDetectHeaderRow nts [] = 0"
    by (simp add: autoDetectHeaderRow_def)
  have e: "\<forall>x. 1 / 2 ^ 1022 \<le> \<bar>x\<bar> \<longrightarrow> \<bar>fl x - x\<bar> \<le> \<bar>x\<bar> / 2 ^ 53"
    using fl_error by (simp add: pow2_def)
  show ?thesis
    by (intro conjI a b row_score_fold keywordHints_def fl_1_5 e autoDetect_example autoDetect_capital autoDetect_tie)
qed

theorem autoDetectHeaderRow_max_witness:
  "\<bar>fl (1 / 5) - 1 / 5\<bar> \<le> 1 / 5 / 2 ^ 53 \<and>
   capital_rows \<noteq> [] \<and>
   row_score (\<lambda>n. []) (capital_rows ! 0) < row_score (\<lambda>n. []) (capital_rows ! 1) \<and>
   autoDetectHeaderRow (\<lambda>n. []) capital_rows = 1"
proof -
  have ne: "capital_rows \<noteq> []"
    by (simp add: capital_rows_def)
  note t = autoDetectHeaderRow_max [of capital_rows "\<lambda>n. []" "[]"]
  from t have one: "autoDetectHeaderRow (\<lambda>n. []) capital_rows = 1"
    by (elim conjE)
  from t [THEN conjunct1] ne have "\<forall>j < autoDetectHeaderRow (\<lambda>n. []) capital_rows.
      row_score (\<lambda>n. []) (capital_rows ! j)
        < row_score (\<lambda>n. []) (capital_rows ! autoDetectHeaderRow (\<lambda>n. []) capital_rows)"
    by (elim impE conjE)
  then have a: "row_score (\<lambda>n. []) (capital_rows ! 0) < row_score (\<lambda>n. []) (capital_rows ! 1)"
    unfolding one by simp
  note e = t [THEN conjunct2, THEN conjunct2, THEN conjunct2, THEN conjunct2, THEN conjunct2, THEN conjunct1,
      rule_format, of "1 / 5"]
  have b: "\<bar>fl (1 / 5) - 1 / 5\<bar> \<le> 1 / 5 / 2 ^ 53"
    using e by simp
  show ?thesis
    by (intro conjI b ne a one)
qed

section \<open>Properties of the schema mapper\<close>

lemma suggest_step_nonneg: "0 \<le> snd b \<Longrightarrow> 0 \<le> snd (suggest_step syns h b)"
  by (simp add: suggest_step_def Let_def)

lemma suggest_loop_nonneg:
  "0 \<le> snd b \<Longrightarrow> 0 \<le> snd (foldl (\<lambda>b h. suggest_step syns h b) b hs)"
  by (induction hs arbitrary: b) (simp_all add: suggest_step_nonneg)

lemma suggest_loop_keep:
  "\<forall>h\<in>set hs. header_score syns (snd h) + header_exact syns (snd h) \<le> snd b \<Longrightarrow>
   foldl (\<lambda>b h. suggest_step syns h b) b hs = b"
  by (induction hs arbitrary: b) (simp_all add: suggest_step_def Let_def)

lemma suggest_for_target: "target (suggest_for headers t) = fst t"
  by (simp add: suggest_for_def Let_def)

lemma suggest_for_confidence:
  "0 \<le> confidence (suggest_for headers t) \<and> confidence (suggest_for headers t) \<le> 1"
  using suggest_loop_nonneg [of "(None, 0)" "target_syns t" "map (\<lambda>h. (h, normalizeHeader h)) headers"]
  by (simp add: suggest_for_def Let_def)

lemma suggest_for_none:
  assumes "\<forall>h\<in>set headers. header_score (target_syns t) (normalizeHeader h)
              + header_exact (target_syns t) (normalizeHeader h) \<le> 0"
  shows "suggest_for headers t = \<lparr> target = fst t, fromHeader = None, confidence = 0 \<rparr>"
proof -
  have "foldl (\<lambda>b h. suggest_step (target_syns t) h b) (None, 0) (map (\<lambda>h. (h, normalizeHeader h)) headers)
        = (None, 0)"
    using assms by (intro suggest_loop_keep) simp
  then show ?thesis
    by (simp add: suggest_for_def Let_def)
qed

lemma canonical_fields:
  "map fst synonymTable =
     [''Product'', ''Category'', ''Transport_kgCO2e'', ''Materials_kgCO2e'', ''Production_kgCO2e'',
      ''Use_kWh_per_year'', ''Water_L'', ''Recycling_Quota_%'', ''Local_Quota_%'', ''EU_Label'']"
  by (simp add: synonymTable_def)

lemma canonical_distinct: "distinct (map fst synonymTable)"
  unfolding canonical_fields by simp

lemma suggestMapping_targets: "map target (suggestMapping headers) = map fst synonymTable"
  by (simp add: suggestMapping_def suggest_for_target)

text \<open>
  Claim C9. For every header list, \<open>suggestMapping\<close> returns one suggestion per canonical
  field, in the fixed order of the ten fields of the synonym table, each with a confidence
  between 0 and 1; the suggestion of a field for which no header scores above zero has
  confidence 0 and no header.
\<close>

theorem suggestMapping_one_per_field:
  "map target (suggestMapping headers) =
     [''Product'', ''Category'', ''Transport_kgCO2e'', ''Materials_kgCO2e'', ''Production_kgCO2e'',
      ''Use_kWh_per_year'', ''Water_L'', ''Recycling_Quota_%'', ''Local_Quota_%'', ''EU_Label''] \<and>
   length (suggestMapping headers) = 10 \<and>
   distinct (map target (suggestMapping headers)) \<and>
   (\<forall>s\<in>set (suggestMapping headers). 0 \<le> confidence s \<and> confidence s \<le> 1) \<and>
   (\<forall>i<length synonymTable.
      suggestMapping headers ! i = suggest_for headers (synonymTable ! i) \<and>
      ((\<forall>h\<in>set headers.
           header_score (target_syns (synonymTable ! i)) (normalizeHeader h)
             + header_exact (target_syns (synonymTable ! i)) (normalizeHeader h) \<le> 0) \<longrightarrow>
       confidence (suggestMapping headers ! i) = 0 \<and> fromHeader (suggestMapping headers ! i) = None))"
proof -
  have t: "map target (suggestMapping headers) =
     [''Product'', ''Category'', ''Transport_kgCO2e'', ''Materials_kgCO2e'', ''Production_kgCO2e'',
      ''Use_kWh_per_year'', ''Water_L'', ''Recycling_Quota_%'', ''Local_Quota_%'', ''EU_Label'']"
    unfolding suggestMapping_targets by (rule canonical_fields)
  have l: "length (suggestMapping headers) = 10"
    using arg_cong [OF t, of length] by simp
  have d: "distinct (map target (suggestMapping headers))"
    unfolding suggestMapping_targets by (rule canonical_distinct)
  have c: "\<forall>s\<in>set (suggestMapping headers). 0 \<le> confidence s \<and> confidence s \<le> 1"
    using suggest_for_confidence by (auto simp: suggestMapping_def)
  have n: "\<forall>i<length synonymTable.
      suggestMapping headers ! i = suggest_for headers (synonymTable ! i) \<and>
      ((\<forall>h\<in>set headers.
           header_score (target_syns (synonymTable ! i)) (normalizeHeader h)
             + header_exact (target_syns (synonymTable ! i)) (normalizeHeader h) \<le> 0) \<longrightarrow>
       confidence (suggestMapping headers ! i) = 0 \<and> fromHeader (suggestMapping headers ! i) = None)"
    using suggest_for_none by (simp add: suggestMapping_def)
  from t l d c n show ?thesis by blast
qed

lemma header_scores_exact:
  "fl (header_score syns n + header_exact syns n) = header_score syns n + header_exact syns n"
  by (cases "list_ex (\<lambda>s. includes_js n s) syns"; cases "n \<in> set syns")
    (simp_all add: header_score_def header_exact_def fl_eval)

lemma toNum_1_200: "toNum (JString ''1,200'') = Some (Num (5404319552844595 / 2 ^ 52))"
  by (simp add: comma_to_dot_def num_char_def is_digit_def Number_js_def unsigned_dec_def
      digits_val_def to_double_def fl_eval)

lemma toNum_50: "toNum (JString ''50'') = Some (Num 50)"
  by (simp add: comma_to_dot_def num_char_def is_digit_def Number_js_def unsigned_dec_def
      digits_val_def to_double_def fl_eval)

lemma toNum_abc: "toNum (JString ''abc'') = Some (Num 0)"
  by (simp add: comma_to_dot_def num_char_def is_digit_def Number_js_def)

lemma fl_12_10: "fl (12 / 10) = 5404319552844595 / 2 ^ 52"
  by (simp add: fl_eval)

lemma toNum_dash: "toNum (JString ''n-a'') = None"
  by (simp add: comma_to_dot_def num_char_def is_digit_def Number_js_def unsigned_dec_def)


lemma normalize_test_headers:
  "normalizeHeader ''Product'' = ''product''"
  "normalizeHeader ''Transport kgCO2e'' = ''transport kgco2e''"
  "normalizeHeader ''Category'' = ''category''"
  "normalizeHeader ''Transport_kgCO2e'' = ''transport kgco2e''"
  by (simp_all add: normalizeHeader_def toLowerCase_def lower_char_def isSpace_def isSep_def trim_def)

lemma category_syns:
  "target_syns (synonymTable ! 1) = [''category'', ''category'', ''segment'', ''family'', ''type'']"
  by (simp add: synonymTable_def target_syns_def normalizeHeader_def toLowerCase_def lower_char_def
      isSpace_def isSep_def trim_def)

lemma category_no_match:
  "\<forall>h\<in>set test_headers.
     header_score (target_syns (synonymTable ! 1)) (normalizeHeader h)
       + header_exact (target_syns (synonymTable ! 1)) (normalizeHeader h) \<le> 0"
  unfolding category_syns
  by (simp add: test_headers_def normalize_test_headers header_score_def header_exact_def)

theorem suggestMapping_one_per_field_witness:
  "target (suggestMapping test_headers ! 1) = ''Category'' \<and>
   confidence (suggestMapping test_headers ! 1) = 0 \<and>
   fromHeader (suggestMapping test_headers ! 1) = None"
proof -
  note t = suggestMapping_one_per_field [of test_headers]
  have i: "1 < length synonymTable"
    by (simp add: synonymTable_def)
  have l: "1 < length (suggestMapping test_headers)"
    using t by simp
  from t have "map target (suggestMapping test_headers) ! 1 = ''Category''"
    by simp
  then have a: "target (suggestMapping test_headers ! 1) = ''Category''"
    using l by simp
  from t have "\<forall>i<length synonymTable.
      suggestMapping test_headers ! i = suggest_for test_headers (synonymTable ! i) \<and>
      ((\<forall>h\<in>set test_headers.
           header_score (target_syns (synonymTable ! i)) (normalizeHeader h)
             + header_exact (target_syns (synonymTable ! i)) (normalizeHeader h) \<le> 0) \<longrightarrow>
       confidence (suggestMapping test_headers ! i) = 0 \<and> fromHeader (suggestMapping test_headers ! i) = None)"
    by blast
  with i category_no_match
  have "confidence (suggestMapping test_headers ! 1) = 0 \<and> fromHeader (suggestMapping test_headers ! 1) = None"
    by blast
  with a show ?thesis by simp
qed

text \<open>
  Claim C2, at its own inputs. The coercion turns a comma into a dot before it filters,
  so the text \<open>1,200\<close> is read as the binary64 number 1.2 and not as 1200; \<open>50\<close> is read as 50; the
  non-numeric text \<open>abc\<close> is filtered to the empty string, which \<open>Number\<close> reads as 0,
  so the result is 0 and not null.
\<close>

theorem toNum_thousands_separator:
  "toNum (JString ''1,200'') = Some (Num (fl (12 / 10))) \<and>
   \<bar>fl (12 / 10) - 12 / 10\<bar> < 1 / 2 ^ 52 \<and>
   toNum (JString ''1,200'') \<noteq> Some (Num 1200) \<and>
   toNum (JString ''50'') = Some (Num 50) \<and>
   toNum (JString ''abc'') = Some (Num 0) \<and>
   toNum (JString ''abc'') \<noteq> None"
  unfolding toNum_1_200 toNum_50 toNum_abc fl_12_10 by simp

section \<open>Properties of the store: locking a baseline\<close>

lemma snapshot_view_lock:
  "snapshot_view (lock now w) =
     Some (now, live_kpis w,
           \<lparr> count = length (live_kpis w),
             totalCO2e = foldl (\<lambda>a b. jadd a (Total_CO2e b)) (Num 0) (live_kpis w) \<rparr>,
           threshs (fst w) (WizardState.thresholds (snd w)))"
  by (simp add: snapshot_view_def lock_def store_set_def Let_def live_kpis_def)

lemma lock_shares:
  "map_option Snapshot.kpis (lockedSnapshot (snd (lock now w))) = Some (WizardState.kpis (snd (lock now w))) \<and>
   map_option Snapshot.thresholds (lockedSnapshot (snd (lock now w))) = Some (WizardState.thresholds (snd (lock now w)))"
  by (simp add: lock_def store_set_def Let_def)

lemma lock_frame:
  "fst (lock now w) = fst w" "WizardState.kpis (snd (lock now w)) = WizardState.kpis (snd w)"
  "WizardState.thresholds (snd (lock now w)) = WizardState.thresholds (snd w)"
  by (simp_all add: lock_def store_set_def Let_def)

lemma wf_lock: "wf_world w \<Longrightarrow> wf_world (lock now w)"
  by (simp add: wf_world_def lock_frame)

lemma snapshot_view_replace_kpis:
  assumes "lockedSnapshot (snd w) = Some sn" "Snapshot.kpis sn < next_addr (fst w)"
  shows "snapshot_view (replace_kpis ks w) = snapshot_view w"
  using assms
  by (simp add: snapshot_view_def replace_kpis_def alloc_array_def setKPIs_def store_set_def)

lemma snapshot_view_replace_thresholds:
  assumes "lockedSnapshot (snd w) = Some sn" "Snapshot.thresholds sn < next_addr (fst w)"
  shows "snapshot_view (replace_thresholds t w) = snapshot_view w"
  using assms
  by (simp add: snapshot_view_def replace_thresholds_def alloc_thresholds_def setThresholds_def store_set_def)

lemma live_kpis_replace: "live_kpis (replace_kpis ks w) = ks"
  by (simp add: live_kpis_def replace_kpis_def alloc_array_def setKPIs_def store_set_def)

lemma snapshot_view_clone: "snapshot_view (structuredClone w) = snapshot_view w"
proof (cases "lockedSnapshot (snd w)")
  case None
  then show ?thesis
    by (simp add: snapshot_view_def structuredClone_def Let_def alloc_array_def alloc_thresholds_def)
next
  case (Some sn)
  then show ?thesis
    by (simp add: snapshot_view_def structuredClone_def Let_def alloc_array_def alloc_thresholds_def)
qed

lemma live_kpis_clone: "live_kpis (structuredClone w) = live_kpis w"
  by (cases "lockedSnapshot (snd w)")
     (simp_all add: live_kpis_def structuredClone_def Let_def alloc_array_def alloc_thresholds_def)


lemma snapshot_view_stepIndex:
  "snapshot_view (fst w, (snd w)\<lparr> stepIndex := x \<rparr>) = snapshot_view w"
  by (simp add: snapshot_view_def split: option.split)

lemma snapshot_view_nextStep: "snapshot_view (nextStep w) = snapshot_view w"
  unfolding nextStep_def store_update_def snapshot_view_stepIndex by (rule snapshot_view_clone)

lemma live_kpis_push: "live_kpis (kpis_push k w) = live_kpis w @ [k]"
  by (simp add: live_kpis_def kpis_push_def Let_def)

lemma snapshot_kpis_push_shared:
  assumes "lockedSnapshot (snd w) = Some sn" "Snapshot.kpis sn = WizardState.kpis (snd w)"
  shows "snapshot_kpis (kpis_push k w) = Some (live_kpis w @ [k])"
  using assms by (simp add: snapshot_kpis_def snapshot_view_def kpis_push_def Let_def live_kpis_def)

lemma snapshot_kpis_set_total_shared:
  assumes "lockedSnapshot (snd w) = Some sn" "Snapshot.kpis sn = WizardState.kpis (snd w)"
    "i < length (live_kpis w)"
  shows "map_sum id snapshot_kpis (kpis_set_total i v w)
           = Inr (Some ((live_kpis w)[i := (live_kpis w ! i)\<lparr> Total_CO2e := v \<rparr>]))"
  using assms by (simp add: snapshot_kpis_def snapshot_view_def kpis_set_total_def Let_def live_kpis_def)

lemma clone_keeps_sharing:
  assumes "lockedSnapshot (snd w) = Some sn" "Snapshot.kpis sn = WizardState.kpis (snd w)"
  shows "\<exists>sn'. lockedSnapshot (snd (structuredClone w)) = Some sn' \<and>
               Snapshot.kpis sn' = WizardState.kpis (snd (structuredClone w))"
  using assms by (simp add: structuredClone_def Let_def alloc_array_def alloc_thresholds_def split: prod.splits)

lemma lock_Some:
  "\<exists>sn. lockedSnapshot (snd (lock now w)) = Some sn \<and> Snapshot.kpis sn = WizardState.kpis (snd (lock now w)) \<and>
        Snapshot.kpis sn = WizardState.kpis (snd w) \<and> Snapshot.thresholds sn = WizardState.thresholds (snd w)"
  by (simp add: lock_def store_set_def Let_def)

lemma live_kpis_lock: "live_kpis (lock now w) = live_kpis w"
  by (simp add: live_kpis_def lock_frame)

lemma snapshot_kpis_push_lock: "snapshot_kpis (kpis_push k (lock now w)) = Some (live_kpis w @ [k])"
proof -
  obtain sn where "lockedSnapshot (snd (lock now w)) = Some sn"
      "Snapshot.kpis sn = WizardState.kpis (snd (lock now w))"
    using lock_Some by blast
  then show ?thesis
    using snapshot_kpis_push_shared live_kpis_lock by metis
qed

lemma snapshot_kpis_update_push_lock:
  "snapshot_kpis (store_update (kpis_push k) (lock now w)) = Some (live_kpis w @ [k])"
proof -
  obtain sn where "lockedSnapshot (snd (lock now w)) = Some sn"
      "Snapshot.kpis sn = WizardState.kpis (snd (lock now w))"
    using lock_Some by blast
  then obtain sn' where "lockedSnapshot (snd (structuredClone (lock now w))) = Some sn'"
      "Snapshot.kpis sn' = WizardState.kpis (snd (structuredClone (lock now w)))"
    using clone_keeps_sharing by blast
  then have "snapshot_kpis (kpis_push k (structuredClone (lock now w)))
               = Some (live_kpis (structuredClone (lock now w)) @ [k])"
    by (rule snapshot_kpis_push_shared)
  then show ?thesis
    by (simp add: store_update_def live_kpis_clone live_kpis_lock)
qed

lemma snapshot_kpis_lock: "snapshot_kpis (lock now w) = Some (live_kpis w)"
  by (simp add: snapshot_kpis_def snapshot_view_lock)

lemma live_locked_example: "live_kpis (replace_kpis [example_kpi] init) = [example_kpi]"
  by (rule live_kpis_replace)

lemma example_kpi_total: "Total_CO2e example_kpi = Num (241 / 4)"
  by (simp add: example_kpi_def computeKPI_def example_total example_rounded)

text \<open>
  Claim C1, as stated, fails. \<open>lock\<close> stores in the snapshot the reference of the live KPI
  list, not a copy. After computing one KPI and locking, an entry pushed onto the live list,
  directly or inside \<open>store.update\<close>, appears in the snapshot's list, and an assignment to
  the total of the live entry changes the total read through the snapshot.
\<close>

theorem lock_shares_reference_counterexample:
  "snapshot_kpis locked_example = Some [example_kpi] \<and>
   snapshot_kpis (kpis_push example_kpi locked_example) = Some [example_kpi, example_kpi] \<and>
   snapshot_kpis (store_update (kpis_push example_kpi) locked_example) = Some [example_kpi, example_kpi] \<and>
   map_sum id snapshot_kpis (kpis_set_total 0 (Num 999) locked_example)
     = Inr (Some [example_kpi\<lparr> Total_CO2e := Num 999 \<rparr>]) \<and>
   Total_CO2e example_kpi = Num (6025 / 100) \<and>
   snapshot_kpis (kpis_push example_kpi locked_example) \<noteq> snapshot_kpis locked_example"
proof -
  obtain sn where sn: "lockedSnapshot (snd locked_example) = Some sn"
      "Snapshot.kpis sn = WizardState.kpis (snd locked_example)"
    unfolding locked_example_def using lock_Some by blast
  have live: "live_kpis locked_example = [example_kpi]"
    unfolding locked_example_def live_kpis_lock by (rule live_kpis_replace)
  have a: "snapshot_kpis locked_example = Some [example_kpi]"
    unfolding locked_example_def snapshot_kpis_lock live_kpis_replace ..
  have b: "snapshot_kpis (kpis_push example_kpi locked_example) = Some [example_kpi, example_kpi]"
    unfolding locked_example_def snapshot_kpis_push_lock live_kpis_replace by simp
  have c: "snapshot_kpis (store_update (kpis_push example_kpi) locked_example) = Some [example_kpi, example_kpi]"
    unfolding locked_example_def snapshot_kpis_update_push_lock live_kpis_replace by simp
  have d: "map_sum id snapshot_kpis (kpis_set_total 0 (Num 999) locked_example)
     = Inr (Some [example_kpi\<lparr> Total_CO2e := Num 999 \<rparr>])"
    using snapshot_kpis_set_total_shared [OF sn, of 0 "Num 999"] by (simp add: live)
  show ?thesis
    unfolding a b c d example_kpi_total by simp
qed

text \<open>
  Claim C1, amended. \<open>lock\<close> records the time, the live KPI list and the thresholds by
  reference, with the count and the sum of the totals computed at that moment. What is read
  through the snapshot is unchanged when the live list is replaced by a new array
  (\<open>setKPIs\<close>, as the compute button does) or the thresholds by a new object
  (\<open>setThresholds\<close>), and across \<open>nextStep\<close>; an edit of the live list in place, made
  while it is still the list that was locked, is read through the snapshot as well.
\<close>

theorem lock_snapshot_frame:
  assumes "wf_world w"
  shows "snapshot_view (lock now w) =
           Some (now, live_kpis w,
                 \<lparr> count = length (live_kpis w),
                   totalCO2e = foldl (\<lambda>a b. jadd a (Total_CO2e b)) (Num 0) (live_kpis w) \<rparr>,
                 threshs (fst w) (WizardState.thresholds (snd w))) \<and>
         snapshot_view (replace_kpis ks (lock now w)) = snapshot_view (lock now w) \<and>
         live_kpis (replace_kpis ks (lock now w)) = ks \<and>
         snapshot_view (replace_thresholds t (lock now w)) = snapshot_view (lock now w) \<and>
         snapshot_view (nextStep (lock now w)) = snapshot_view (lock now w) \<and>
         snapshot_view (step3_compute (lock now w)) = snapshot_view (lock now w) \<and>
         snapshot_kpis (kpis_push k (lock now w)) = Some (live_kpis w @ [k])"
proof -
  obtain sn where sn: "lockedSnapshot (snd (lock now w)) = Some sn"
      "Snapshot.kpis sn = WizardState.kpis (snd w)" "Snapshot.thresholds sn = WizardState.thresholds (snd w)"
    using lock_Some by blast
  have lt: "Snapshot.kpis sn < next_addr (fst (lock now w))" "Snapshot.thresholds sn < next_addr (fst (lock now w))"
    using assms sn(2,3) by (simp_all add: wf_world_def lock_frame)
  have r: "\<And>ks. snapshot_view (replace_kpis ks (lock now w)) = snapshot_view (lock now w)"
    using sn(1) lt(1) by (rule snapshot_view_replace_kpis)
  have th: "snapshot_view (replace_thresholds t (lock now w)) = snapshot_view (lock now w)"
    using sn(1) lt(2) by (rule snapshot_view_replace_thresholds)
  have c: "snapshot_view (step3_compute (lock now w)) = snapshot_view (lock now w)"
    by (simp add: step3_compute_def Let_def snapshot_view_nextStep r)
  show ?thesis
    unfolding r th c snapshot_view_nextStep live_kpis_replace snapshot_kpis_push_lock
    using snapshot_view_lock by simp
qed

lemma wf_init: "wf_world init"
  by (simp add: wf_world_def init_def)

lemma live_init: "live_kpis init = []"
  by (simp add: live_kpis_def init_def)

theorem lock_snapshot_frame_witness:
  "snapshot_kpis (replace_kpis [example_kpi] (lock ''t'' init)) = Some [] \<and>
   live_kpis (replace_kpis [example_kpi] (lock ''t'' init)) = [example_kpi]"
  using lock_snapshot_frame [OF wf_init, of "''t''" "[example_kpi]"]
  by (simp add: snapshot_kpis_def live_init)

section \<open>Properties of the wizard: navigation and gates\<close>

lemma clone_fields:
  "stepIndex (snd (structuredClone w)) = stepIndex (snd w)"
  "error (snd (structuredClone w)) = error (snd w)"
  "dataQuality (snd (structuredClone w)) = dataQuality (snd w)"
  "records (snd (structuredClone w)) = records (snd w)"
  "(lockedSnapshot (snd (structuredClone w)) = None) = (lockedSnapshot (snd w) = None)"
  by (cases "lockedSnapshot (snd w)";
      simp add: structuredClone_def Let_def alloc_array_def alloc_thresholds_def split: prod.splits)+

lemma nextStep_fields:
  "stepIndex (snd (nextStep w)) = min 4 (stepIndex (snd w) + 1)"
  "error (snd (nextStep w)) = error (snd w)"
  "dataQuality (snd (nextStep w)) = dataQuality (snd w)"
  "records (snd (nextStep w)) = records (snd w)"
  "(lockedSnapshot (snd (nextStep w)) = None) = (lockedSnapshot (snd w) = None)"
  by (simp_all add: nextStep_def store_update_def clone_fields)

lemma live_kpis_nextStep: "live_kpis (nextStep w) = live_kpis w"
  using live_kpis_clone [of w] by (simp add: nextStep_def store_update_def live_kpis_def)

lemma nav_click_forward: "stepIndex (snd w) < idx \<Longrightarrow> nav_click idx w = w"
  by (simp add: nav_click_def)

lemma nav_click_back:
  "idx \<le> stepIndex (snd w) \<Longrightarrow>
     stepIndex (snd (nav_click idx w)) = idx \<and> error (snd (nav_click idx w)) = error (snd w)"
  by (simp add: nav_click_def store_set_def)

lemma nav_click_frontier:
  "idx \<le> stepIndex (snd w) \<and> idx < j \<Longrightarrow> nav_click j (nav_click idx w) = nav_click idx w"
  by (simp add: nav_click_def store_set_def)

lemma step2_apply_cases:
  "step2_apply nts w = w \<or>
   (\<exists>rs. let dq = validate rs; w1 = store_set (\<lambda>s. s\<lparr> records := rs, dataQuality := Some dq \<rparr>) w
         in step2_apply nts w = (if DataQualitySummary.status dq \<noteq> red then nextStep w1 else w1))"
  by (auto simp: step2_apply_def Let_def split: list.splits prod.splits)

lemma click_apply_red:
  assumes "dataQuality (snd (click_apply nts w)) = Some dq" "DataQualitySummary.status dq = red"
  shows "stepIndex (snd (click_apply nts w)) = stepIndex (snd w)"
proof (cases "click_apply nts w = w")
  case True
  then show ?thesis by simp
next
  case False
  then have c: "click_apply nts w = step2_apply nts w" and n: "step2_apply nts w \<noteq> w"
    by (auto simp: click_apply_def split: if_splits)
  with step2_apply_cases [of nts w] obtain rs where
    rs: "step2_apply nts w =
          (if DataQualitySummary.status (validate rs) \<noteq> red
           then nextStep (store_set (\<lambda>s. s\<lparr> records := rs, dataQuality := Some (validate rs) \<rparr>) w)
           else store_set (\<lambda>s. s\<lparr> records := rs, dataQuality := Some (validate rs) \<rparr>) w)"
    by (auto simp: Let_def)
  show ?thesis
  proof (cases "DataQualitySummary.status (validate rs) = red")
    case True
    with rs c show ?thesis by (simp add: store_set_def)
  next
    case False
    with rs c have "dataQuality (snd (click_apply nts w)) = Some (validate rs)"
      by (simp add: nextStep_fields store_set_def)
    with assms False show ?thesis by simp
  qed
qed

lemma click_apply_error: "error (snd (click_apply nts w)) = error (snd w)"
proof (cases "click_apply nts w = w")
  case True
  then show ?thesis by simp
next
  case False
  then have c: "click_apply nts w = step2_apply nts w" and n: "step2_apply nts w \<noteq> w"
    by (auto simp: click_apply_def split: if_splits)
  with step2_apply_cases [of nts w] obtain rs where
    "step2_apply nts w =
          (if DataQualitySummary.status (validate rs) \<noteq> red
           then nextStep (store_set (\<lambda>s. s\<lparr> records := rs, dataQuality := Some (validate rs) \<rparr>) w)
           else store_set (\<lambda>s. s\<lparr> records := rs, dataQuality := Some (validate rs) \<rparr>) w)"
    by (auto simp: Let_def)
  with c show ?thesis
    by (simp add: nextStep_fields store_set_def)
qed

lemma replace_kpis_fields:
  "stepIndex (snd (replace_kpis ks w)) = stepIndex (snd w)"
  "error (snd (replace_kpis ks w)) = error (snd w)"
  by (simp_all add: replace_kpis_def alloc_array_def setKPIs_def store_set_def)

lemma click_compute_disabled: "records (snd w) = [] \<Longrightarrow> click_compute w = w"
  by (simp add: click_compute_def)

lemma click_compute_gate:
  assumes "live_kpis (click_compute w) = []"
  shows "stepIndex (snd (click_compute w)) = stepIndex (snd w)"
proof (cases "stepIndex (snd w) = 2 \<and> records (snd w) \<noteq> []")
  case True
  then have "live_kpis (click_compute w) \<noteq> []"
    by (simp add: click_compute_def step3_compute_def Let_def live_kpis_nextStep live_kpis_replace computeKPIs_def)
  with assms show ?thesis by simp
next
  case False
  then show ?thesis by (auto simp: click_compute_def)
qed

lemma click_compute_error: "error (snd (click_compute w)) = error (snd w)"
  by (simp add: click_compute_def step3_compute_def Let_def nextStep_fields replace_kpis_fields)

lemma click_lock_disabled: "live_kpis w = [] \<Longrightarrow> click_lock now w = w"
  by (simp add: click_lock_def)

lemma lock_fields:
  "stepIndex (snd (lock now w)) = stepIndex (snd w)"
  "error (snd (lock now w)) = error (snd w)"
  "lockedSnapshot (snd (lock now w)) \<noteq> None"
  by (simp_all add: lock_def store_set_def Let_def)

lemma click_lock_gate:
  assumes "lockedSnapshot (snd (click_lock now w)) = None"
  shows "stepIndex (snd (click_lock now w)) = stepIndex (snd w)"
proof (cases "stepIndex (snd w) = 3 \<and> live_kpis w \<noteq> []")
  case True
  then have "lockedSnapshot (snd (click_lock now w)) \<noteq> None"
    by (simp add: click_lock_def step4_lock_def nextStep_fields lock_fields)
  with assms show ?thesis by simp
next
  case False
  then show ?thesis by (auto simp: click_lock_def)
qed

lemma click_lock_error: "error (snd (click_lock now w)) = error (snd w)"
  by (simp add: click_lock_def step4_lock_def nextStep_fields lock_fields)


lemma fieldFrom_unmapped:
  "fieldFrom (map (\<lambda>t. \<lparr> target = fst t, fromHeader = None, confidence = 0 \<rparr>) ts) t = None"
proof -
  have "map_of (rev (map (\<lambda>s. (target s, fromHeader s))
          (map (\<lambda>t. \<lparr> target = fst t, fromHeader = None, confidence = 0 \<rparr>) ts))) t \<noteq> Some (Some h)" for h
  proof
    assume "map_of (rev (map (\<lambda>s. (target s, fromHeader s))
          (map (\<lambda>t. \<lparr> target = fst t, fromHeader = None, confidence = 0 \<rparr>) ts))) t = Some (Some h)"
    then have "(t, Some h) \<in> set (rev (map (\<lambda>s. (target s, fromHeader s))
          (map (\<lambda>t. \<lparr> target = fst t, fromHeader = None, confidence = 0 \<rparr>) ts)))"
      by (rule map_of_SomeD)
    then show False by auto
  qed
  then show ?thesis
    by (auto simp: fieldFrom_def split: option.splits)
qed

lemma unmapped_apply:
  "click_apply nts unmapped_example =
     store_set (\<lambda>s. s\<lparr> records := fst (applyMapping nts (snd (snd (hd (sheets (snd unmapped_example)))))
                                     (snd (hd (mappings (snd unmapped_example))))),
                       dataQuality := Some (validate (fst (applyMapping nts (snd (snd (hd (sheets (snd unmapped_example)))))
                                     (snd (hd (mappings (snd unmapped_example))))))) \<rparr>) unmapped_example \<and>
   DataQualitySummary.status (validate (fst (applyMapping nts (snd (snd (hd (sheets (snd unmapped_example)))))
                                     (snd (hd (mappings (snd unmapped_example))))))) = red"
proof -
  let ?rs = "fst (applyMapping nts (snd (snd (hd (sheets (snd unmapped_example)))))
                                     (snd (hd (mappings (snd unmapped_example)))))"
  have t: "map Transport_kgCO2e ?rs = [None]"
    by (simp add: unmapped_example_def applyMapping_def Let_def fieldFrom_unmapped apply_row_def get_prop_def)
  then obtain r where r: "?rs = [r]" "Transport_kgCO2e r = None"
    by (cases ?rs) auto
  have "list_ex (\<lambda>i. severity i = sev_error) (validate_loop 0 [r])"
    by (simp add: req_def check_field_def r(2))
  then have red: "DataQualitySummary.status (validate ?rs) = red"
    unfolding r(1) by (simp add: validate_def Let_def)
  have "click_apply nts unmapped_example = step2_apply nts unmapped_example"
    by (simp add: click_apply_def unmapped_example_def)
  also have "\<dots> = store_set (\<lambda>s. s\<lparr> records := ?rs, dataQuality := Some (validate ?rs) \<rparr>) unmapped_example"
    using red by (simp add: step2_apply_def Let_def unmapped_example_def split_def)
  finally show ?thesis
    using red by simp
qed

text \<open>
  Claim C3. In every state of the wizard: a click on the navigation button of a step beyond
  the current step index changes nothing; a click on the button of a step at or before it
  goes there. \<open>Apply Mapping & Validate\<close> leaves the step index as it is whenever the
  data quality it has just stored is red; \<open>Compute KPIs\<close> does nothing while there are no
  records, and never advances leaving the KPI list empty; \<open>Lock Baseline\<close> does nothing
  while there are no KPIs, and never advances without a snapshot. None of them writes the
  error slot. The frontier is the current step index: after going back, the steps beyond
  are closed again. \<open>store.nextStep\<close> itself is the unguarded step, capped at 4, that
  these handlers call behind their guards.
\<close>

theorem wizard_navigation_gates:
  "(stepIndex (snd w) < idx \<longrightarrow> nav_click idx w = w) \<and>
   (idx \<le> stepIndex (snd w) \<longrightarrow>
      stepIndex (snd (nav_click idx w)) = idx \<and> error (snd (nav_click idx w)) = error (snd w)) \<and>
   ((\<exists>dq. dataQuality (snd (click_apply nts w)) = Some dq \<and> DataQualitySummary.status dq = red) \<longrightarrow>
      stepIndex (snd (click_apply nts w)) = stepIndex (snd w)) \<and>
   (live_kpis (click_compute w) = [] \<longrightarrow> stepIndex (snd (click_compute w)) = stepIndex (snd w)) \<and>
   (records (snd w) = [] \<longrightarrow> click_compute w = w) \<and>
   (lockedSnapshot (snd (click_lock now w)) = None \<longrightarrow>
      stepIndex (snd (click_lock now w)) = stepIndex (snd w)) \<and>
   (live_kpis w = [] \<longrightarrow> click_lock now w = w) \<and>
   (idx \<le> stepIndex (snd w) \<and> idx < j \<longrightarrow> nav_click j (nav_click idx w) = nav_click idx w) \<and>
   stepIndex (snd (nextStep w)) = min 4 (stepIndex (snd w) + 1) \<and>
   error (snd (click_apply nts w)) = error (snd w) \<and>
   error (snd (click_compute w)) = error (snd w) \<and>
   error (snd (click_lock now w)) = error (snd w)"
  using nav_click_forward [of w idx] nav_click_back [of idx w] click_apply_red [of nts w]
    click_compute_gate [of w] click_compute_disabled [of w] click_lock_gate [of now w]
    click_lock_disabled [of w now] click_apply_error [of nts w] click_compute_error [of w]
    click_lock_error [of now w] nav_click_frontier [of idx w j] nextStep_fields(1) [of w]
  by blast

theorem wizard_navigation_gates_witness:
  "nav_click 2 unmapped_example = unmapped_example \<and>
   stepIndex (snd (nav_click 0 unmapped_example)) = 0 \<and>
   stepIndex (snd (click_apply (\<lambda>n. []) unmapped_example)) = 1 \<and>
   click_compute unmapped_example = unmapped_example \<and>
   click_lock [] unmapped_example = unmapped_example"
proof -
  note t = wizard_navigation_gates [of unmapped_example _ "\<lambda>n. []" "[]" 4]
  have s: "stepIndex (snd unmapped_example) = 1" "records (snd unmapped_example) = []"
    "live_kpis unmapped_example = []"
    by (simp_all add: unmapped_example_def init_def live_kpis_def)
  have "\<exists>dq. dataQuality (snd (click_apply (\<lambda>n. []) unmapped_example)) = Some dq
            \<and> DataQualitySummary.status dq = red"
    using unmapped_apply [of "\<lambda>n. []"] by (simp add: store_set_def)
  with t [of 2] have a: "stepIndex (snd (click_apply (\<lambda>n. []) unmapped_example)) = 1"
    using s(1) by simp
  from t [of 2] s have b: "nav_click 2 unmapped_example = unmapped_example"
    "click_compute unmapped_example = unmapped_example" "click_lock [] unmapped_example = unmapped_example"
    by simp_all
  from t [of 0] s(1) have c: "stepIndex (snd (nav_click 0 unmapped_example)) = 0"
    by simp
  from a b c show ?thesis by simp
qed

end
